theory Spec2Isabelle
  imports Main
begin

text \<open>
  A verification development for the agent orchestration loop of mikasa.ai: the
  Planner, the Executor, the Iterator, the Agent and the preview/apply routes that
  drive it. Each definition follows the TypeScript function of the same name.
\<close>

section \<open>JavaScript values, strings and errors\<close>

text \<open>
  Values that reach the agent as parsed JSON (the completion API's plan and fix
  responses, and the \<open>params\<close> of a step, typed \<open>Record<string, any>\<close>) are
  modelled with their runtime shape. \<open>Undefined\<close> is the value of a missing property.
  A string is a list of code units below 256. A number is kept as the text that
  \<open>Number.prototype.toString\<close> gives for it (\<open>42\<close>, \<open>-1.5\<close>, \<open>1e+21\<close>): the agent loop
  never computes with a parsed number, it only prints it and tests it for
  truthiness, and the numbers that are falsy are the zeros, which print as \<open>0\<close>, and
  \<open>NaN\<close>. An object is the list of its own properties; they are data, never functions.
\<close>

datatype jsv =
    Undefined
  | Null
  | Bool bool
  | Num string
  | Str string
  | Arr "jsv list"
  | Obj "(string \<times> jsv) list"

text \<open>Truthiness, as \<open>!x\<close>, \<open>x || y\<close> and \<open>if (x)\<close> test it.\<close>

fun truthy :: "jsv \<Rightarrow> bool" where
  "truthy Undefined = False"
| "truthy Null = False"
| "truthy (Bool b) = b"
| "truthy (Num n) = (n \<noteq> ''0'' \<and> n \<noteq> ''NaN'')"
| "truthy (Str s) = (s \<noteq> [])"
| "truthy (Arr xs) = True"
| "truthy (Obj kvs) = True"

definition nullish :: "jsv \<Rightarrow> bool" where
  "nullish v = (v = Undefined \<or> v = Null)"

text \<open>
  Decimal printing of the integers the code itself interpolates: loop indices,
  lengths and the configured limits.
\<close>

definition digit_char :: "nat \<Rightarrow> char" where
  "digit_char d = ''0123456789'' ! d"

fun string_of_nat :: "nat \<Rightarrow> string" where
  "string_of_nat n =
     (if n < 10 then [digit_char n]
      else string_of_nat (n div 10) @ [digit_char (n mod 10)])"

declare string_of_nat.simps [simp del]

definition string_of_int :: "int \<Rightarrow> string" where
  "string_of_int i = (if i < 0 then CHR ''-'' # string_of_nat (nat (- i)) else string_of_nat (nat i))"

fun join :: "string \<Rightarrow> string list \<Rightarrow> string" where
  "join sep [] = []"
| "join sep [x] = x"
| "join sep (x # y # ys) = x @ sep @ join sep (y # ys)"

text \<open>
  The error classes of \<open>shared/errors.ts\<close>, with the two built-in classes the agent
  code meets (\<open>Error\<close>, thrown by \<open>parsePlanResponse\<close>, and \<open>TypeError\<close>, thrown by
  the runtime on a property access on \<open>null\<close>/\<open>undefined\<close>, a call of a non-function
  or a failed conversion to a string). A thrown value is an error object; \<open>err_name\<close>
  is its \<open>name\<close> property and \<open>err_message\<close> its \<open>message\<close>.
\<close>

datatype js_error =
    Error string
  | TypeError string
  | MikasaError string
  | ConfigurationError string
  | LLMError string
  | ToolExecutionError string string
  | AgentError string
  | AudioRecordingError string
  | DatabaseError string

fun err_message :: "js_error \<Rightarrow> string" where
  "err_message (Error m) = m"
| "err_message (TypeError m) = m"
| "err_message (MikasaError m) = m"
| "err_message (ConfigurationError m) = m"
| "err_message (LLMError m) = m"
| "err_message (ToolExecutionError m t) = m"
| "err_message (AgentError m) = m"
| "err_message (AudioRecordingError m) = m"
| "err_message (DatabaseError m) = m"

fun err_name :: "js_error \<Rightarrow> string" where
  "err_name (Error m) = ''Error''"
| "err_name (TypeError m) = ''TypeError''"
| "err_name (MikasaError m) = ''MikasaError''"
| "err_name (ConfigurationError m) = ''ConfigurationError''"
| "err_name (LLMError m) = ''LLMError''"
| "err_name (ToolExecutionError m t) = ''ToolExecutionError''"
| "err_name (AgentError m) = ''AgentError''"
| "err_name (AudioRecordingError m) = ''AudioRecordingError''"
| "err_name (DatabaseError m) = ''DatabaseError''"

text \<open>The results of a list of computations in order, or the first error among them.\<close>

fun collect :: "('e + 'a) list \<Rightarrow> 'e + 'a list" where
  "collect [] = Inr []"
| "collect (Inl e # xs) = Inl e"
| "collect (Inr a # xs) = (case collect xs of Inl e \<Rightarrow> Inl e | Inr as \<Rightarrow> Inr (a # as))"

text \<open>
  \<open>to_string\<close> is the conversion a template literal \<open>`${v}`\<close> applies. It throws for
  an object that has an own property \<open>toString\<close>: that property is data and cannot be
  called, and the \<open>valueOf\<close> the conversion tries next is either own data too or the
  inherited one, which returns the object itself. Every other object prints through
  the inherited \<open>toString\<close>. An array prints its elements joined by commas,
  \<open>undefined\<close> and \<open>null\<close> as the empty string, and throws when an element does.
\<close>

fun to_string :: "jsv \<Rightarrow> js_error + string" where
  "to_string Undefined = Inr ''undefined''"
| "to_string Null = Inr ''null''"
| "to_string (Bool b) = Inr (if b then ''true'' else ''false'')"
| "to_string (Num n) = Inr n"
| "to_string (Str s) = Inr s"
| "to_string (Arr xs) =
     (case collect (map (\<lambda>x. if x = Undefined \<or> x = Null then Inr [] else to_string x) xs) of
        Inl e \<Rightarrow> Inl e
      | Inr ss \<Rightarrow> Inr (join '','' ss))"
| "to_string (Obj kvs) =
     (if ''toString'' \<in> fst ` set kvs
      then Inl (TypeError ''Cannot convert object to primitive value'')
      else Inr ''[object Object]'')"

text \<open>The constants of \<open>shared/constants.ts\<close> that the agent reads.\<close>

definition DEFAULT_MAX_ITERATIONS :: int where
  "DEFAULT_MAX_ITERATIONS = 10"

definition DEFAULT_MAX_RETRIES :: int where
  "DEFAULT_MAX_RETRIES = 3"

section \<open>Task types (\<open>shared/types/task.ts\<close>)\<close>

datatype step_status = pending | in_progress | completed | failed

text \<open>
  A plan step. \<open>stepId\<close> is generated by the planner and is a string; the other
  fields are copied from the parsed completion without any check, so they carry
  whatever the model wrote.
\<close>

record PlanStep =
  stepId :: string
  description :: jsv
  tool :: jsv
  params :: jsv
  dependencies :: jsv
  status :: step_status

record TaskPlan =
  steps :: "PlanStep list"
  reasoning :: jsv
  estimatedSteps :: nat

datatype log_level = info | warn | error | debug

text \<open>
  A log entry. The source also stores \<open>timestamp: new Date()\<close> and an optional
  \<open>data\<close> object; neither is read by the agent loop, and they are left out.
\<close>

record ExecutionLog =
  level :: log_level
  message :: string

record CommandResult =
  command :: string
  exitCode :: int
  stdout :: string
  stderr :: string
  duration :: int

record TaskExecution =
  currentStep :: nat
  completedSteps :: "string list"
  failedSteps :: "string list"
  exec_logs :: "ExecutionLog list"
  exec_filesModified :: "string list"
  exec_commandsRun :: "CommandResult list"
  exec_plan :: "TaskPlan option"

section \<open>Tools (\<open>agent/tools/base-tool.ts\<close>)\<close>

text \<open>
  The metadata keys the executor reads, each optional. The tools of the repository
  fill them with the types written here.
\<close>

record ResultMetadata =
  meta_filesModified :: "string list option"
  meta_command :: "string option"
  meta_exitCode :: "int option"
  meta_stdout :: "string option"
  meta_stderr :: "string option"
  meta_duration :: "int option"

record ToolExecutionResult =
  success :: bool
  output_of :: string
  error_of :: "string option"
  metadata :: "ResultMetadata option"

text \<open>
  A tool runs against the world outside the process (file system, shell, git), of
  type \<open>'w\<close>: \<open>execute\<close> takes the parameters and the world, and either throws
  (\<open>Inl\<close>) or returns a result (\<open>Inr\<close>), with the world it leaves.
\<close>

record 'w BaseTool =
  name :: string
  execute :: "jsv \<Rightarrow> 'w \<Rightarrow> (js_error + ToolExecutionResult) \<times> 'w"

section \<open>Observation of a run\<close>

text \<open>
  The state threaded through the agent: the outside world and a trace of the calls
  made so far. The trace is an observer: no function reads it.
\<close>

datatype event =
    EvCreatePlan
  | EvIterate nat
  | EvExecuteStep string
  | EvToolExecute string string "js_error + ToolExecutionResult"
  | EvRetryWithFix string

record 'w sys =
  world :: 'w
  trace :: "event list"

definition emit :: "event \<Rightarrow> 'w sys \<Rightarrow> 'w sys" where
  "emit ev s = s\<lparr>trace := trace s @ [ev]\<rparr>"

section \<open>Agent context (\<open>agent/context.ts\<close>)\<close>

record AgentContext =
  goal :: string
  workingDirectory :: string
  filesModified :: "string list"
  commandsRun :: "CommandResult list"
  logs :: "ExecutionLog list"

text \<open>
  \<open>createContext\<close>: \<open>workingDirectory || process.cwd()\<close>, with the process's
  current directory as a parameter.
\<close>

definition createContext :: "string \<Rightarrow> string \<Rightarrow> string option \<Rightarrow> AgentContext" where
  "createContext cwd g wd =
     \<lparr>goal = g,
      workingDirectory = (case wd of None \<Rightarrow> cwd | Some d \<Rightarrow> if d = [] then cwd else d),
      filesModified = [],
      commandsRun = [],
      logs = []\<rparr>"

definition addLog :: "AgentContext \<Rightarrow> log_level \<Rightarrow> string \<Rightarrow> AgentContext" where
  "addLog context lv msg = context\<lparr>logs := logs context @ [\<lparr>level = lv, message = msg\<rparr>]\<rparr>"

definition addFileModified :: "AgentContext \<Rightarrow> string \<Rightarrow> AgentContext" where
  "addFileModified context filePath =
     (if filePath \<notin> set (filesModified context)
      then context\<lparr>filesModified := filesModified context @ [filePath]\<rparr>
      else context)"

definition addCommandRun :: "AgentContext \<Rightarrow> CommandResult \<Rightarrow> AgentContext" where
  "addCommandRun context result = context\<lparr>commandsRun := commandsRun context @ [result]\<rparr>"
section \<open>Executor (\<open>agent/executor.ts\<close>)\<close>

text \<open>
  The constructor takes the completion client and the tool list, in this order, and
  stores them. A parameter whose argument is left out of the call is \<open>undefined\<close>:
  \<open>None\<close> for the tool list. The executor never reads its client, whose type is
  left open.
\<close>

record ('l, 'w) Executor =
  ex_llm :: 'l
  ex_tools :: "'w BaseTool list option"

definition newExecutor :: "'l \<Rightarrow> 'w BaseTool list option \<Rightarrow> ('l, 'w) Executor" where
  "newExecutor l ts = \<lparr>ex_llm = l, ex_tools = ts\<rparr>"

text \<open>
  \<open>findTool\<close>: the first tool whose name is strictly equal to \<open>step.tool\<close>. The read
  of \<open>this.tools.find\<close> throws when \<open>this.tools\<close> is \<open>undefined\<close>.
\<close>

definition findTool :: "('l, 'w) Executor \<Rightarrow> jsv \<Rightarrow> js_error + 'w BaseTool option" where
  "findTool ex toolName =
     (case ex_tools ex of
        None \<Rightarrow> Inl (TypeError ''Cannot read properties of undefined (reading 'find')'')
      | Some ts \<Rightarrow> Inr (find (\<lambda>t. Str (name t) = toolName) ts))"

text \<open>
  The side-effect bookkeeping of a successful result (the block under
  \<open>// Track side effects\<close>): every reported path goes through \<open>addFileModified\<close>, in
  order, and a truthy \<open>metadata.command\<close> appends a command record, each missing or
  falsy field replaced by its default.
\<close>

definition trackSideEffects :: "AgentContext \<Rightarrow> ToolExecutionResult \<Rightarrow> AgentContext" where
  "trackSideEffects context result =
     (case metadata result of
        None \<Rightarrow> context
      | Some m \<Rightarrow>
          let c1 = (case meta_filesModified m of
                      None \<Rightarrow> context
                    | Some fs \<Rightarrow> foldl addFileModified context fs)
          in (case meta_command m of
                None \<Rightarrow> c1
              | Some cmd \<Rightarrow>
                  if cmd = [] then c1
                  else addCommandRun c1
                         \<lparr>command = cmd,
                          exitCode = (case meta_exitCode m of None \<Rightarrow> 0 | Some e \<Rightarrow> e),
                          stdout = (case meta_stdout m of None \<Rightarrow> [] | Some t \<Rightarrow> t),
                          stderr = (case meta_stderr m of None \<Rightarrow> [] | Some t \<Rightarrow> t),
                          duration = (case meta_duration m of None \<Rightarrow> 0 | Some d \<Rightarrow> d)\<rparr>))"

text \<open>
  \<open>executeStep\<close>: the outcome of the promise (\<open>Inl\<close> is a rejection), the context
  and the state it leaves. Three statements stand before the \<open>try\<close> and their errors
  leave the function: the conversion of \<open>step.description\<close> for the first log entry,
  the call of \<open>findTool\<close>, and the conversion of \<open>step.tool\<close> for the
  \<open>Tool not found\<close> message. Inside the \<open>try\<close> the description is converted again
  for the second log entry; the value is the same and so is the text \<open>d\<close>.
\<close>

definition executeStep ::
  "('l, 'w) Executor \<Rightarrow> PlanStep \<Rightarrow> AgentContext \<Rightarrow> 'w sys
     \<Rightarrow> (js_error + ToolExecutionResult) \<times> AgentContext \<times> 'w sys" where
  "executeStep ex step context s0 =
     (let s1 = emit (EvExecuteStep (stepId step)) s0
      in case to_string (description step) of
           Inl e \<Rightarrow> (Inl e, context, s1)
         | Inr d \<Rightarrow>
             (let c1 = addLog context info (''Executing: '' @ d)
              in case findTool ex (tool step) of
                   Inl e \<Rightarrow> (Inl e, c1, s1)
                 | Inr None \<Rightarrow>
                     (case to_string (tool step) of
                        Inl e \<Rightarrow> (Inl e, c1, s1)
                      | Inr t \<Rightarrow>
                          let err = ''Tool not found: '' @ t;
                              c2 = addLog c1 error err
                          in (Inr \<lparr>success = False, output_of = [], error_of = Some err,
                                   metadata = None\<rparr>, c2, s1))
                 | Inr (Some t) \<Rightarrow>
                     let (r, w') = execute t (params step) (world s1);
                         s2 = emit (EvToolExecute (stepId step) (name t) r) (s1\<lparr>world := w'\<rparr>)
                     in (case r of
                           Inr result \<Rightarrow>
                             if success result
                             then
                               let c2 = addLog c1 info (''Step completed: '' @ d);
                                   c3 = trackSideEffects c2 result
                               in (Inr result, c3, s2)
                             else
                               let c2 = addLog c1 error (''Step failed: '' @ d)
                               in (Inr result, c2, s2)
                         | Inl e \<Rightarrow>
                             let errorMessage = ''Tool execution failed: '' @ err_message e;
                                 c2 = addLog c1 error errorMessage
                             in (Inr \<lparr>success = False, output_of = [], error_of = Some errorMessage,
                                      metadata = None\<rparr>, c2, s2))))"

section \<open>The completion API and the runtime\<close>

text \<open>
  A completion request is represented by the values its prompt is built from: the
  goal and the working directory for planning (\<open>buildPrompt\<close>), and the texts of the
  failed step's description and tool, its parameters and the failure's error and
  output for a fix (\<open>getFixStrategy\<close>). The fixed prompt text, \<open>maxTokens\<close> and the
  temperature are constants of the source. The client answers with the response text
  or throws, and may answer the same request differently each time: it reads and
  changes the world.
\<close>

datatype CompletionRequest =
    PlanRequest string string
  | FixRequest string string jsv "string option" string

text \<open>
  What the code takes from its runtime and libraries: the completion client,
  \<open>JSON.parse\<close> (\<open>None\<close> is a thrown \<open>SyntaxError\<close>), \<open>uuidv4\<close> and
  \<open>process.cwd()\<close>.
\<close>

record 'w runtime =
  generateCompletion :: "CompletionRequest \<Rightarrow> 'w \<Rightarrow> (js_error + string) \<times> 'w"
  JSON_parse :: "string \<Rightarrow> jsv option"
  uuidv4 :: "'w \<Rightarrow> string \<times> 'w"
  cwd :: string

section \<open>Parsing a completion (\<open>parsePlanResponse\<close>, \<open>parseFixResponse\<close>)\<close>

text \<open>
  \<open>trim\<close> removes white space and line terminators at both ends. Among the code
  units below 256 these are tab, line feed, vertical tab, form feed, carriage return,
  space and the no-break space.
\<close>

definition is_space :: "char \<Rightarrow> bool" where
  "is_space c = (c \<in> set [CHR 0x09, CHR 0x0A, CHR 0x0B, CHR 0x0C, CHR 0x0D, CHR 0x20, CHR 0xA0])"

definition trim :: "string \<Rightarrow> string" where
  "trim s = rev (dropWhile is_space (rev (dropWhile is_space s)))"

definition startsWith :: "string \<Rightarrow> string \<Rightarrow> bool" where
  "startsWith s p = (take (length p) s = p)"

definition endsWith :: "string \<Rightarrow> string \<Rightarrow> bool" where
  "endsWith s p = (length p \<le> length s \<and> drop (length s - length p) s = p)"

text \<open>The text handed to the first \<open>JSON.parse\<close>: trimmed, fences removed, trimmed.\<close>

definition stripFences :: "string \<Rightarrow> string" where
  "stripFences response =
     (let c0 = trim response;
          c1 = (if startsWith c0 ''```json'' then drop 7 c0 else c0);
          c2 = (if startsWith c1 ''```'' then drop 3 c1 else c1);
          c3 = (if endsWith c2 ''```'' then take (length c2 - 3) c2 else c2)
      in trim c3)"

text \<open>
  \<open>response.match(/\{[\s\S]*\}/)\<close>: the match runs from the first opening brace to
  the last closing brace after it; there is none when no closing brace follows the
  first opening one.
\<close>

definition braceMatch :: "string \<Rightarrow> string option" where
  "braceMatch response =
     (let s = dropWhile (\<lambda>c. c \<noteq> CHR ''{'') response;
          t = rev (dropWhile (\<lambda>c. c \<noteq> CHR ''}'') (rev s))
      in if t = [] then None else Some t)"

definition parsePlanResponse :: "(string \<Rightarrow> jsv option) \<Rightarrow> string \<Rightarrow> js_error + jsv" where
  "parsePlanResponse parse response =
     (case parse (stripFences response) of
        Some v \<Rightarrow> Inr v
      | None \<Rightarrow>
          (case braceMatch response of
             Some m \<Rightarrow>
               (case parse m of
                  Some v \<Rightarrow> Inr v
                | None \<Rightarrow> Inl (Error ''Failed to parse plan response''))
           | None \<Rightarrow> Inl (Error ''Failed to parse plan response'')))"

definition parseFixResponse :: "(string \<Rightarrow> jsv option) \<Rightarrow> string \<Rightarrow> jsv" where
  "parseFixResponse parse response =
     (case parse (stripFences response) of
        Some v \<Rightarrow> v
      | None \<Rightarrow>
          (case braceMatch response of
             Some m \<Rightarrow> (case parse m of Some v \<Rightarrow> v | None \<Rightarrow> Null)
           | None \<Rightarrow> Null))"
section \<open>Property reads\<close>

text \<open>
  \<open>propOf v k\<close> is \<open>v.k\<close> for a \<open>v\<close> that is neither \<open>null\<close> nor \<open>undefined\<close>, at the
  keys the agent reads (\<open>steps\<close>, \<open>reasoning\<close>, \<open>description\<close>, \<open>tool\<close>, \<open>params\<close>,
  \<open>dependencies\<close>, \<open>modifiedParams\<close>): an object has the property or not, and a
  boolean, number, string or array has none of them. \<open>get_prop\<close> adds the
  \<open>TypeError\<close> of a read on \<open>null\<close> or \<open>undefined\<close>, with the engine's message.
\<close>

fun propOf :: "jsv \<Rightarrow> string \<Rightarrow> jsv" where
  "propOf (Obj kvs) k = (case map_of kvs k of None \<Rightarrow> Undefined | Some v \<Rightarrow> v)"
| "propOf v k = Undefined"

definition cannotRead :: "jsv \<Rightarrow> string \<Rightarrow> js_error" where
  "cannotRead v k =
     TypeError (''Cannot read properties of '' @ (if v = Null then ''null'' else ''undefined'')
                  @ '' (reading '' @ CHR 0x27 # k @ ''')'')"

definition get_prop :: "jsv \<Rightarrow> string \<Rightarrow> js_error + jsv" where
  "get_prop v k = (if nullish v then Inl (cannotRead v k) else Inr (propOf v k))"

section \<open>Planner (\<open>agent/planner.ts\<close>)\<close>

definition generateStepId :: "('w \<Rightarrow> string \<times> 'w) \<Rightarrow> nat \<Rightarrow> 'w \<Rightarrow> string \<times> 'w" where
  "generateStepId uuid index w =
     (let (u, w') = uuid w
      in (''step-'' @ string_of_nat index @ ''-'' @ take 8 u, w'))"

text \<open>
  The callback of \<open>planData.steps.map\<close>: the step id is generated first, then the
  fields are read from the element; a \<open>null\<close> element throws at the first read.
\<close>

definition planStepOf :: "string \<Rightarrow> jsv \<Rightarrow> js_error + PlanStep" where
  "planStepOf sid s =
     (case get_prop s ''description'' of
        Inl e \<Rightarrow> Inl e
      | Inr d \<Rightarrow>
          Inr \<lparr>stepId = sid,
               description = d,
               tool = propOf s ''tool'',
               params = propOf s ''params'',
               dependencies =
                 (let deps = propOf s ''dependencies'' in if truthy deps then deps else Arr []),
               status = pending\<rparr>)"

fun mapSteps ::
  "('w \<Rightarrow> string \<times> 'w) \<Rightarrow> nat \<Rightarrow> jsv list \<Rightarrow> 'w \<Rightarrow> (js_error + PlanStep list) \<times> 'w" where
  "mapSteps uuid i [] w = (Inr [], w)"
| "mapSteps uuid i (s # ss) w =
     (let (sid, w1) = generateStepId uuid i w
      in case planStepOf sid s of
           Inl e \<Rightarrow> (Inl e, w1)
         | Inr st \<Rightarrow>
             (case mapSteps uuid (Suc i) ss w1 of
                (Inl e, w2) \<Rightarrow> (Inl e, w2)
              | (Inr sts, w2) \<Rightarrow> (Inr (st # sts), w2)))"

text \<open>
  The plan built from the parsed completion, or the error thrown on the way:
  \<open>planData.steps\<close> must be an array for \<open>.map\<close> to be callable.
\<close>

definition buildPlan ::
  "('w \<Rightarrow> string \<times> 'w) \<Rightarrow> jsv \<Rightarrow> 'w \<Rightarrow> (js_error + TaskPlan) \<times> 'w" where
  "buildPlan uuid planData w =
     (case get_prop planData ''steps'' of
        Inl e \<Rightarrow> (Inl e, w)
      | Inr (Arr xs) \<Rightarrow>
          (case mapSteps uuid 0 xs w of
             (Inl e, w1) \<Rightarrow> (Inl e, w1)
           | (Inr sts, w1) \<Rightarrow>
               (Inr \<lparr>steps = sts, reasoning = propOf planData ''reasoning'',
                     estimatedSteps = length xs\<rparr>, w1))
      | Inr v \<Rightarrow>
          (if nullish v then (Inl (cannotRead v ''map''), w)
           else (Inl (TypeError ''planData.steps.map is not a function''), w)))"

text \<open>
  \<open>createPlan\<close>: every error of the \<open>try\<close> block (the completion call, the parse,
  the construction of the plan) is logged and rethrown as an \<open>AgentError\<close>.
\<close>

definition createPlan ::
  "'w runtime \<Rightarrow> string \<Rightarrow> AgentContext \<Rightarrow> 'w sys
     \<Rightarrow> (js_error + TaskPlan) \<times> AgentContext \<times> 'w sys" where
  "createPlan rt g context s0 =
     (let s1 = emit EvCreatePlan s0;
          c1 = addLog context info ''Creating execution plan'';
          (resp, w1) = generateCompletion rt (PlanRequest g (workingDirectory c1)) (world s1);
          s2 = s1\<lparr>world := w1\<rparr>;
          (r, s3) =
            (case resp of
               Inl e \<Rightarrow> (Inl e, s2)
             | Inr text \<Rightarrow>
                 (case parsePlanResponse (JSON_parse rt) text of
                    Inl e \<Rightarrow> (Inl e, s2)
                  | Inr planData \<Rightarrow>
                      (let (p, w2) = buildPlan (uuidv4 rt) planData (world s2)
                       in (p, s2\<lparr>world := w2\<rparr>))))
      in case r of
           Inr plan \<Rightarrow>
             (Inr plan,
              addLog c1 info (''Plan created with '' @ string_of_nat (length (steps plan)) @ '' steps''),
              s3)
         | Inl e \<Rightarrow>
             (Inl (AgentError (''Planning failed: '' @ err_message e)),
              addLog c1 error ''Failed to create plan'',
              s3))"

section \<open>Iterator (\<open>agent/iterator.ts\<close>)\<close>

record Iterator =
  retryCount :: "string \<rightharpoonup> int"
  maxRetries :: int

text \<open>The constructor; \<open>maxRetries\<close> defaults to 3 when it is not given.\<close>

definition newIterator :: "int option \<Rightarrow> Iterator" where
  "newIterator m =
     \<lparr>retryCount = Map.empty, maxRetries = (case m of None \<Rightarrow> 3 | Some k \<Rightarrow> k)\<rparr>"

definition countOf :: "Iterator \<Rightarrow> string \<Rightarrow> int" where
  "countOf it sid = (case retryCount it sid of None \<Rightarrow> 0 | Some c \<Rightarrow> c)"

definition canRetry :: "Iterator \<Rightarrow> string \<Rightarrow> bool" where
  "canRetry it sid = (countOf it sid < maxRetries it)"

definition resetRetryCount :: "Iterator \<Rightarrow> string \<Rightarrow> Iterator" where
  "resetRetryCount it sid = it\<lparr>retryCount := (retryCount it)(sid := None)\<rparr>"

text \<open>
  \<open>getFixStrategy\<close> builds the prompt first, outside its \<open>try\<close>: the conversions of
  \<open>step.description\<close> and \<open>step.tool\<close> can throw, and the error leaves the function.
  Otherwise it returns the parsed fix, or \<open>null\<close> when the completion call throws,
  the fix is falsy, or its \<open>modifiedParams\<close> is \<open>null\<close>.
\<close>

definition getFixStrategy ::
  "'w runtime \<Rightarrow> PlanStep \<Rightarrow> ToolExecutionResult \<Rightarrow> AgentContext \<Rightarrow> 'w sys
     \<Rightarrow> (js_error + jsv) \<times> AgentContext \<times> 'w sys" where
  "getFixStrategy rt step failedResult context s0 =
     (case to_string (description step) of
        Inl e \<Rightarrow> (Inl e, context, s0)
      | Inr d \<Rightarrow>
          (case to_string (tool step) of
             Inl e \<Rightarrow> (Inl e, context, s0)
           | Inr t \<Rightarrow>
               (let (resp, w1) =
                      generateCompletion rt
                        (FixRequest d t (params step) (error_of failedResult) (output_of failedResult))
                        (world s0);
                    s1 = s0\<lparr>world := w1\<rparr>
                in case resp of
                     Inl e \<Rightarrow>
                       (Inr Null,
                        addLog context error (''Failed to get fix strategy: '' @ err_message e), s1)
                   | Inr reply \<Rightarrow>
                       (let fix = parseFixResponse (JSON_parse rt) reply
                        in if \<not> truthy fix \<or> propOf fix ''modifiedParams'' = Null
                           then (Inr Null, context, s1)
                           else (Inr fix, context, s1)))))"

text \<open>
  \<open>retryWithFix\<close>: the counter of the step is incremented first, whatever follows.
  The modified step is a copy of the step with the new parameters and description.
  Every error thrown inside the \<open>try\<close> (by \<open>getFixStrategy\<close>, by the conversion of
  \<open>fixStrategy.reasoning\<close> or of \<open>step.description\<close>, by \<open>executeStep\<close>) is logged and
  the failed result is returned. (The call of \<open>getFixStrategy\<close> is spelled
  \<open>this.getFix Strategy\<close> in the file.)
\<close>

definition retryWithFix ::
  "'w runtime \<Rightarrow> ('l, 'w) Executor \<Rightarrow> Iterator \<Rightarrow> PlanStep \<Rightarrow> ToolExecutionResult
     \<Rightarrow> AgentContext \<Rightarrow> 'w sys
     \<Rightarrow> ToolExecutionResult \<times> Iterator \<times> AgentContext \<times> 'w sys" where
  "retryWithFix rt executor it step failedResult context s0 =
     (let s1 = emit (EvRetryWithFix (stepId step)) s0;
          n = countOf it (stepId step) + 1;
          it1 = it\<lparr>retryCount := (retryCount it)(stepId step \<mapsto> n)\<rparr>;
          c1 = addLog context info
                 (''Attempting to fix failed step (attempt '' @ string_of_int n @ ''/''
                    @ string_of_int (maxRetries it) @ '')'');
          (fs, c2, s2) = getFixStrategy rt step failedResult c1 s1;
          caught = (\<lambda>e c s. (failedResult, it1,
                               addLog c error (''Fix attempt failed: '' @ err_message e), s))
      in case fs of
           Inl e \<Rightarrow> caught e c2 s2
         | Inr fixStrategy \<Rightarrow>
             if \<not> truthy fixStrategy then (failedResult, it1, c2, s2)
             else
               (case to_string (propOf fixStrategy ''reasoning'') of
                  Inl e \<Rightarrow> caught e c2 s2
                | Inr rs \<Rightarrow>
                    (let c3 = addLog c2 info (''Fix strategy: '' @ rs);
                         mp = propOf fixStrategy ''modifiedParams''
                     in case to_string (description step) of
                          Inl e \<Rightarrow> caught e c3 s2
                        | Inr d \<Rightarrow>
                            (let modifiedStep =
                                   step\<lparr>params := (if truthy mp then mp else params step),
                                        description := Str (d @ '' (retry with fix)'')\<rparr>;
                                 (r, c4, s3) = executeStep executor modifiedStep c3 s2
                             in case r of
                                  Inr result \<Rightarrow> (result, it1, c4, s3)
                                | Inl e \<Rightarrow> caught e c4 s3))))"

section \<open>Agent (\<open>agent/agent.ts\<close>)\<close>

record AgentConfig =
  taskId :: string
  model :: "string option"
  autonomous :: "bool option"
  maxIterations :: "int option"
  cfg_workingDirectory :: "string option"
  previewMode :: "bool option"

text \<open>The \<open>agent\<close> section of the loaded application configuration.\<close>

record AppAgentConfig =
  app_maxIterations :: int
  app_maxRetries :: int

text \<open>The values \<open>loadConfig\<close> returns when no configuration file overrides them.\<close>

definition defaultConfig :: AppAgentConfig where
  "defaultConfig = \<lparr>app_maxIterations = 10, app_maxRetries = 3\<rparr>"

text \<open>
  An agent owns its configuration, its tools, its executor and its iterator; the
  planner has no state of its own. The constructor builds the three tools of the
  repository from the configuration; here the tool list is a parameter. It builds
  the executor with \<open>new Executor(this.tools)\<close>: the tool list is the only argument
  and takes the place of the client, and the executor's own tool list is left out.
\<close>

record 'w Agent =
  config :: AgentConfig
  tools :: "'w BaseTool list"
  executor :: "('w BaseTool list, 'w) Executor"
  iterator :: Iterator

definition newAgent :: "AppAgentConfig \<Rightarrow> 'w BaseTool list \<Rightarrow> AgentConfig \<Rightarrow> 'w Agent" where
  "newAgent appConfig ts cfg =
     \<lparr>config = cfg, tools = ts, executor = newExecutor ts None,
      iterator = newIterator (Some (app_maxRetries appConfig))\<rparr>"

definition isAutonomous :: "AgentConfig \<Rightarrow> bool" where
  "isAutonomous cfg = (autonomous cfg = Some True)"

text \<open>\<open>this.config.maxIterations || appConfig.agent.maxIterations\<close>\<close>

definition iterationCeiling :: "AgentConfig \<Rightarrow> AppAgentConfig \<Rightarrow> int" where
  "iterationCeiling cfg appConfig =
     (case maxIterations cfg of
        None \<Rightarrow> app_maxIterations appConfig
      | Some m \<Rightarrow> if m \<noteq> 0 then m else app_maxIterations appConfig)"

text \<open>
  The variables of the execution phase: the steps of the plan (their \<open>status\<close> is
  assigned in place), the context, the iterator, the two result lists and the state
  outside.
\<close>

record 'w run =
  run_steps :: "PlanStep list"
  run_context :: AgentContext
  run_iterator :: Iterator
  run_completed :: "string list"
  run_failed :: "string list"
  run_sys :: "'w sys"

text \<open>
  One pass of the body of the \<open>for\<close> loop, for the index \<open>i\<close>: the error it throws,
  if any, and the variables it leaves. The description is converted for the first
  log entry before the status is assigned; the later log entries convert the same
  value to the same text \<open>d\<close>. An error of that conversion or a rejection of
  \<open>executeStep\<close> leaves the loop.
\<close>

definition loopBody ::
  "'w runtime \<Rightarrow> ('l, 'w) Executor \<Rightarrow> bool \<Rightarrow> int \<Rightarrow> nat \<Rightarrow> 'w run \<Rightarrow> js_error option \<times> 'w run" where
  "loopBody rt ex auto ceiling i r =
     (let step0 = run_steps r ! i;
          s1 = emit (EvIterate i) (run_sys r)
      in case to_string (description step0) of
           Inl e \<Rightarrow> (Some e, r\<lparr>run_sys := s1\<rparr>)
         | Inr d \<Rightarrow>
             (let c1 = addLog (run_context r) info
                         (''Executing step '' @ string_of_nat (i + 1) @ ''/''
                            @ string_of_nat (length (run_steps r)) @ '': '' @ d);
                  step = step0\<lparr>status := in_progress\<rparr>;
                  (r1, c2, s2) = executeStep ex step c1 s1
              in case r1 of
                   Inl e \<Rightarrow>
                     (Some e,
                      r\<lparr>run_steps := (run_steps r)[i := step], run_context := c2, run_sys := s2\<rparr>)
                 | Inr result1 \<Rightarrow>
                     (let (result, it1, c3, s3) =
                            (if \<not> success result1 \<and> canRetry (run_iterator r) (stepId step)
                             then retryWithFix rt ex (run_iterator r) step result1
                                    (addLog c2 warn ''Step failed, attempting recovery'') s2
                             else (result1, run_iterator r, c2, s2))
                      in if success result
                         then
                           (let r' = r\<lparr>run_steps := (run_steps r)[i := step\<lparr>status := completed\<rparr>],
                                        run_context := addLog c3 info (''Step completed: '' @ d),
                                        run_iterator := it1,
                                        run_completed := run_completed r @ [stepId step],
                                        run_sys := s3\<rparr>
                            in if ceiling \<le> int i
                               then (Some (AgentError (''Maximum iterations (''
                                                         @ string_of_int ceiling @ '') exceeded'')), r')
                               else (None, r'))
                         else
                           (let r' = r\<lparr>run_steps := (run_steps r)[i := step\<lparr>status := failed\<rparr>],
                                        run_context :=
                                          addLog c3 error (''Step failed after retries: '' @ d),
                                        run_iterator := it1,
                                        run_failed := run_failed r @ [stepId step],
                                        run_sys := s3\<rparr>
                            in if \<not> auto
                               then (Some (AgentError (''Step failed: ''
                                             @ (case error_of result of
                                                  None \<Rightarrow> ''undefined'' | Some m \<Rightarrow> m))), r')
                               else if ceiling \<le> int i
                               then (Some (AgentError (''Maximum iterations (''
                                                         @ string_of_int ceiling @ '') exceeded'')), r')
                               else (None, r')))))"

text \<open>\<open>for (let i = 0; i < plan.steps.length; i++)\<close>, from the index \<open>i\<close> on.\<close>

function agentLoop ::
  "'w runtime \<Rightarrow> ('l, 'w) Executor \<Rightarrow> bool \<Rightarrow> int \<Rightarrow> nat \<Rightarrow> 'w run \<Rightarrow> js_error option \<times> 'w run" where
  "agentLoop rt ex auto ceiling i r =
     (if i < length (run_steps r)
      then (case loopBody rt ex auto ceiling i r of
              (Some e, r') \<Rightarrow> (Some e, r')
            | (None, r') \<Rightarrow> agentLoop rt ex auto ceiling (Suc i) r')
      else (None, r))"
  by pat_completeness auto
termination
proof (relation "measure (\<lambda>(rt, ex, auto, ceiling, i, r). length (run_steps r) - i)")
  show "wf (measure (\<lambda>(rt :: 'w runtime, ex :: ('l, 'w) Executor, auto :: bool, ceiling :: int,
                        i :: nat, r :: 'w run). length (run_steps r) - i))"
    by simp
next
  fix rt :: "'w runtime" and ex :: "('l, 'w) Executor" and auto :: bool and ceiling :: int
    and i :: nat and r r' :: "'w run" and x :: "js_error option"
  assume lt: "i < length (run_steps r)" and eq: "(x, r') = loopBody rt ex auto ceiling i r"
  have "length (run_steps (snd (loopBody rt ex auto ceiling i r))) = length (run_steps r)"
    by (simp add: loopBody_def Let_def split: prod.splits sum.splits)
  then have "length (run_steps r') = length (run_steps r)"
    using eq [symmetric] by simp
  with lt show "((rt, ex, auto, ceiling, Suc i, r'), (rt, ex, auto, ceiling, i, r))
                  \<in> measure (\<lambda>(rt, ex, auto, ceiling, i, r). length (run_steps r) - i)"
    by simp
qed

declare agentLoop.simps [simp del]

text \<open>
  The execution phase of \<open>Agent.execute\<close>, from \<open>// Phase 2: Execution\<close> to the
  end of the call, for the plan the planner returned: the promise's outcome and the
  variables at the end. An error thrown by the loop is logged by the \<open>catch\<close> of
  \<open>execute\<close> and rethrown.
\<close>

definition executionPhase ::
  "'w runtime \<Rightarrow> 'w Agent \<Rightarrow> int \<Rightarrow> TaskPlan \<Rightarrow> AgentContext \<Rightarrow> 'w sys
     \<Rightarrow> (js_error + TaskExecution) \<times> 'w run" where
  "executionPhase rt agent ceiling plan c3 s1 =
     (let c4 = addLog c3 info ''Phase 2: Execution'';
          r0 = \<lparr>run_steps = steps plan, run_context = c4, run_iterator = iterator agent,
                run_completed = [], run_failed = [], run_sys = s1\<rparr>;
          (thrown, r1) = agentLoop rt (executor agent) (isAutonomous (config agent)) ceiling 0 r0
      in case thrown of
           Some e \<Rightarrow>
             (Inl e, r1\<lparr>run_context := addLog (run_context r1) error ''Agent execution failed''\<rparr>)
         | None \<Rightarrow>
             if 0 < length (run_failed r1) \<and> \<not> isAutonomous (config agent)
             then
               (Inl (AgentError (string_of_nat (length (run_failed r1)) @ '' step(s) failed'')),
                r1\<lparr>run_context := addLog (run_context r1) error ''Agent execution failed''\<rparr>)
             else
               (let c5 = addLog (run_context r1) info ''Agent execution completed''
                in (Inr \<lparr>currentStep = length (run_steps r1),
                         completedSteps = run_completed r1,
                         failedSteps = run_failed r1,
                         exec_logs = logs c5,
                         exec_filesModified = filesModified c5,
                         exec_commandsRun = commandsRun c5,
                         exec_plan = None\<rparr>,
                    r1\<lparr>run_context := c5\<rparr>)))"

text \<open>
  \<open>Agent.execute\<close>: the promise's outcome and the variables at the end of the call
  (the agent's iterator is \<open>run_iterator\<close> of them). The plan is created by the
  planner on every call; in preview mode it is returned and nothing is executed.
\<close>

definition Agent_execute ::
  "'w runtime \<Rightarrow> AppAgentConfig \<Rightarrow> 'w Agent \<Rightarrow> string \<Rightarrow> 'w sys
     \<Rightarrow> (js_error + TaskExecution) \<times> 'w run" where
  "Agent_execute rt appConfig agent g s0 =
     (let context = createContext (cwd rt) g (cfg_workingDirectory (config agent));
          ceiling = iterationCeiling (config agent) appConfig;
          c1 = addLog context info ''Starting agent execution'';
          c2 = addLog c1 info ''Phase 1: Planning'';
          (p, c3, s1) = createPlan rt g c2 s0
      in case p of
           Inl e \<Rightarrow>
             (Inl e,
              \<lparr>run_steps = [], run_context = addLog c3 error ''Agent execution failed'',
               run_iterator = iterator agent, run_completed = [], run_failed = [], run_sys = s1\<rparr>)
         | Inr plan \<Rightarrow>
             if previewMode (config agent) = Some True
             then
               (let c4 = addLog c3 info ''Preview mode: returning plan without execution''
                in (Inr \<lparr>currentStep = 0, completedSteps = [], failedSteps = [],
                         exec_logs = logs c4, exec_filesModified = [], exec_commandsRun = [],
                         exec_plan = Some plan\<rparr>,
                    \<lparr>run_steps = steps plan, run_context = c4, run_iterator = iterator agent,
                     run_completed = [], run_failed = [], run_sys = s1\<rparr>))
             else executionPhase rt agent ceiling plan c3 s1)"

section \<open>The preview and apply routes (\<open>server/routes/codegen.ts\<close>)\<close>

record TaskOptions =
  opt_autonomous :: "bool option"
  opt_maxIterations :: "int option"
  opt_previewMode :: "bool option"

record TaskResult =
  res_filesModified :: "string list"
  res_summary :: string
  res_logs :: "ExecutionLog list"
  res_plan :: "TaskPlan option"

record TaskProgress =
  prog_currentStep :: nat
  prog_totalSteps :: nat
  prog_currentAction :: string

text \<open>
  An entry of the in-memory \<open>tasks\<close> map, with the fields the two background
  functions read or write (\<open>task_workingDirectory\<close> is \<open>context?.workingDirectory\<close>).
\<close>

record Task =
  task_status :: string
  task_prompt :: string
  task_model :: "string option"
  task_workingDirectory :: "string option"
  task_options :: "TaskOptions option"
  task_progress :: TaskProgress
  task_result :: "TaskResult option"
  task_error :: "string option"

text \<open>The agent configuration both background functions build from the request.\<close>

definition routeConfig ::
  "string \<Rightarrow> string \<Rightarrow> string option \<Rightarrow> string option \<Rightarrow> TaskOptions option \<Rightarrow> bool \<Rightarrow> AgentConfig" where
  "routeConfig here tid mdl wd options preview =
     \<lparr>taskId = tid,
      model = mdl,
      autonomous =
        Some (case options of None \<Rightarrow> False
              | Some opts \<Rightarrow> (case opt_autonomous opts of None \<Rightarrow> False | Some b \<Rightarrow> b)),
      maxIterations =
        Some (case options of None \<Rightarrow> 10
              | Some opts \<Rightarrow>
                  (case opt_maxIterations opts of None \<Rightarrow> 10 | Some m \<Rightarrow> if m \<noteq> 0 then m else 10)),
      cfg_workingDirectory =
        Some (case wd of None \<Rightarrow> here | Some d \<Rightarrow> if d = [] then here else d),
      previewMode = Some preview\<rparr>"

text \<open>
  \<open>executeAgentInBackground\<close>: the first run of a task, in preview mode unless the
  request's options set \<open>previewMode\<close> to \<open>false\<close>. The checkpoint job it enqueues
  at the end belongs to the persistence layer and is not represented.
\<close>

definition executeAgentInBackground ::
  "'w runtime \<Rightarrow> AppAgentConfig \<Rightarrow> 'w BaseTool list \<Rightarrow> (string \<rightharpoonup> Task) \<Rightarrow> string \<Rightarrow> string
     \<Rightarrow> string option \<Rightarrow> string option \<Rightarrow> TaskOptions option \<Rightarrow> 'w sys
     \<Rightarrow> (string \<rightharpoonup> Task) \<times> 'w sys" where
  "executeAgentInBackground rt appConfig ts tasks tid prompt mdl wd options s0 =
     (case tasks tid of
        None \<Rightarrow> (tasks, s0)
      | Some task \<Rightarrow>
          (let t1 = task\<lparr>task_status := ''executing'',
                         task_progress := (task_progress task)
                           \<lparr>prog_currentAction := ''Creating execution plan...''\<rparr>\<rparr>;
               preview = (case options of None \<Rightarrow> True
                          | Some opts \<Rightarrow> opt_previewMode opts \<noteq> Some False);
               agent = newAgent appConfig ts (routeConfig (cwd rt) tid mdl wd options preview);
               (res, r) = Agent_execute rt appConfig agent prompt s0
           in case res of
                Inr result \<Rightarrow>
                  (let t2 = t1\<lparr>task_status := ''completed'',
                               task_progress :=
                                 \<lparr>prog_currentStep = length (completedSteps result),
                                  prog_totalSteps =
                                    (case exec_plan result of
                                       Some p \<Rightarrow>
                                         if steps p \<noteq> [] then length (steps p)
                                         else length (completedSteps result) + length (failedSteps result)
                                     | None \<Rightarrow>
                                         length (completedSteps result) + length (failedSteps result)),
                                  prog_currentAction =
                                    (case exec_plan result of
                                       Some p \<Rightarrow> ''Waiting for approval'' | None \<Rightarrow> ''Completed'')\<rparr>,
                               task_result := Some
                                 \<lparr>res_filesModified = exec_filesModified result,
                                  res_summary =
                                    (case exec_plan result of
                                       Some p \<Rightarrow> ''Plan created with '' @ string_of_nat (length (steps p))
                                                  @ '' step(s). Waiting for approval.''
                                     | None \<Rightarrow> ''Task completed successfully. Modified ''
                                                  @ string_of_nat (length (exec_filesModified result))
                                                  @ '' file(s).''),
                                  res_logs = exec_logs result,
                                  res_plan = exec_plan result\<rparr>\<rparr>
                   in (tasks(tid \<mapsto> t2), run_sys r))
              | Inl e \<Rightarrow>
                  (tasks(tid \<mapsto> t1\<lparr>task_status := ''failed'',
                                    task_error := Some (err_message e),
                                    task_progress := (task_progress t1)
                                      \<lparr>prog_currentAction := ''Failed''\<rparr>\<rparr>),
                   run_sys r)))"

text \<open>
  \<open>executeApprovedPlan\<close>: a new agent with preview mode off runs \<open>Agent.execute\<close> on the
  task's prompt. On success the stored result keeps \<open>task.result.plan\<close>; reading it
  on a task without a result throws inside the \<open>try\<close>, after the status and the
  progress counters were assigned, and the handler marks the task failed.
\<close>

definition executeApprovedPlan ::
  "'w runtime \<Rightarrow> AppAgentConfig \<Rightarrow> 'w BaseTool list \<Rightarrow> (string \<rightharpoonup> Task) \<Rightarrow> string \<Rightarrow> string
     \<Rightarrow> string option \<Rightarrow> string option \<Rightarrow> TaskOptions option \<Rightarrow> 'w sys
     \<Rightarrow> (string \<rightharpoonup> Task) \<times> 'w run option" where
  "executeApprovedPlan rt appConfig ts tasks tid prompt mdl wd options s0 =
     (case tasks tid of
        None \<Rightarrow> (tasks, None)
      | Some task \<Rightarrow>
          (let t1 = task\<lparr>task_status := ''executing'',
                         task_progress := (task_progress task)
                           \<lparr>prog_currentAction := ''Applying changes...''\<rparr>\<rparr>;
               agent = newAgent appConfig ts (routeConfig (cwd rt) tid mdl wd options False);
               (res, r) = Agent_execute rt appConfig agent prompt s0
           in case res of
                Inl e \<Rightarrow>
                  (tasks(tid \<mapsto> t1
                     \<lparr>task_status := ''failed'',
                      task_error := Some (err_message e),
                      task_progress := (task_progress t1)
                        \<lparr>prog_currentAction := ''Failed to apply changes''\<rparr>\<rparr>),
                   Some r)
              | Inr result \<Rightarrow>
                  (case task_result t1 of
                     None \<Rightarrow>
                       (tasks(tid \<mapsto> t1
                          \<lparr>task_status := ''failed'',
                           task_error := Some ''Cannot read properties of undefined (reading 'plan')'',
                           task_progress :=
                             \<lparr>prog_currentStep = length (completedSteps result),
                              prog_totalSteps =
                                length (completedSteps result) + length (failedSteps result),
                              prog_currentAction = ''Failed to apply changes''\<rparr>\<rparr>),
                        Some r)
                   | Some old \<Rightarrow>
                       (tasks(tid \<mapsto> t1
                          \<lparr>task_status := ''completed'',
                           task_progress :=
                             \<lparr>prog_currentStep = length (completedSteps result),
                              prog_totalSteps =
                                length (completedSteps result) + length (failedSteps result),
                              prog_currentAction = ''Changes applied''\<rparr>,
                           task_result := Some
                             \<lparr>res_filesModified = exec_filesModified result,
                              res_summary = ''Changes applied successfully. Modified ''
                                @ string_of_nat (length (exec_filesModified result)) @ '' file(s).'',
                              res_logs = exec_logs result,
                              res_plan = res_plan old\<rparr>\<rparr>),
                        Some r))))"

text \<open>
  The handler of \<open>POST /tasks/:taskId/apply\<close>: the status code it answers with, and
  the effect of the \<open>executeApprovedPlan\<close> call it starts.
\<close>

definition applyRoute ::
  "'w runtime \<Rightarrow> AppAgentConfig \<Rightarrow> 'w BaseTool list \<Rightarrow> (string \<rightharpoonup> Task) \<Rightarrow> string \<Rightarrow> 'w sys
     \<Rightarrow> nat \<times> (string \<rightharpoonup> Task) \<times> 'w run option" where
  "applyRoute rt appConfig ts tasks tid s0 =
     (case tasks tid of
        None \<Rightarrow> (404, tasks, None)
      | Some task \<Rightarrow>
          if (case task_result task of None \<Rightarrow> True | Some res \<Rightarrow> res_plan res = None)
          then (400, tasks, None)
          else if task_status task \<noteq> ''completed'' then (400, tasks, None)
          else
            (let (tasks', r) =
                   executeApprovedPlan rt appConfig ts tasks tid (task_prompt task) (task_model task)
                     (task_workingDirectory task) (task_options task) s0
             in (200, tasks', r)))"
section \<open>Reading a trace\<close>

text \<open>The events a call added: those of the state it left that come after the state it was given.\<close>

definition eventsSince :: "'w sys \<Rightarrow> 'w sys \<Rightarrow> event list" where
  "eventsSince s0 s = drop (length (trace s0)) (trace s)"

text \<open>The step an executor or iterator event belongs to.\<close>

fun stepOf :: "event \<Rightarrow> string option" where
  "stepOf (EvExecuteStep sid) = Some sid"
| "stepOf (EvToolExecute sid t r) = Some sid"
| "stepOf (EvRetryWithFix sid) = Some sid"
| "stepOf EvCreatePlan = None"
| "stepOf (EvIterate i) = None"

fun isToolExecute :: "event \<Rightarrow> bool" where
  "isToolExecute (EvToolExecute sid t r) = True"
| "isToolExecute ev = False"

fun isRetry :: "event \<Rightarrow> bool" where
  "isRetry (EvRetryWithFix sid) = True"
| "isRetry ev = False"

text \<open>
  How often \<open>retryWithFix\<close> was entered for a step, and how often a tool was run
  for it.
\<close>

definition retries :: "string \<Rightarrow> event list \<Rightarrow> nat" where
  "retries sid tr = length (filter (\<lambda>ev. isRetry ev \<and> stepOf ev = Some sid) tr)"

definition toolRuns :: "string \<Rightarrow> event list \<Rightarrow> nat" where
  "toolRuns sid tr = length (filter (\<lambda>ev. isToolExecute ev \<and> stepOf ev = Some sid) tr)"

text \<open>Whether the executor or the iterator was called at all.\<close>

definition executorCalled :: "event list \<Rightarrow> bool" where
  "executorCalled tr = list_ex (\<lambda>ev. stepOf ev \<noteq> None) tr"

text \<open>The paths a successful tool result reports through \<open>metadata.filesModified\<close>.\<close>

fun reportedFiles :: "event \<Rightarrow> string list" where
  "reportedFiles (EvToolExecute sid t (Inr r)) =
     (if success r
      then (case metadata r of
              None \<Rightarrow> []
            | Some m \<Rightarrow> (case meta_filesModified m of None \<Rightarrow> [] | Some fs \<Rightarrow> fs))
      else [])"
| "reportedFiles ev = []"

text \<open>A list without its repetitions, every element at its first position.\<close>

definition firstOccurrences :: "'a list \<Rightarrow> 'a list" where
  "firstOccurrences xs = foldl (\<lambda>acc x. if x \<in> set acc then acc else acc @ [x]) [] xs"

text \<open>
  When planning cannot succeed, and the error behind it: the completion call throws
  that error; or \<open>JSON.parse\<close> rejects both the fence-stripped text and the
  brace-matched extraction, and \<open>parsePlanResponse\<close> throws its \<open>Error\<close>; or the
  engine throws a \<open>TypeError\<close> for the first read that fails on the parsed value,
  which is \<open>planData.steps\<close> on \<open>null\<close>, \<open>.map\<close> on a \<open>steps\<close> that is missing,
  \<open>null\<close> or not an array, or \<open>s.description\<close> on the first \<open>null\<close> entry.
  \<open>None\<close>: the parsed value has a \<open>steps\<close> array without a \<open>null\<close> entry.
\<close>

definition firstParse :: "(string \<Rightarrow> jsv option) \<Rightarrow> string \<Rightarrow> jsv option" where
  "firstParse parse reply =
     (case parse (stripFences reply) of
        Some v \<Rightarrow> Some v
      | None \<Rightarrow> (case braceMatch reply of None \<Rightarrow> None | Some m \<Rightarrow> parse m))"

definition stepsCause :: "jsv \<Rightarrow> js_error option" where
  "stepsCause v =
     (if nullish v then Some (cannotRead v ''steps'')
      else case propOf v ''steps'' of
             Arr xs \<Rightarrow> map_option (\<lambda>x. cannotRead x ''description'') (find nullish xs)
           | sv \<Rightarrow> if nullish sv then Some (cannotRead sv ''map'')
                   else Some (TypeError ''planData.steps.map is not a function''))"

definition planningCause :: "(string \<Rightarrow> jsv option) \<Rightarrow> js_error + string \<Rightarrow> js_error option" where
  "planningCause parse resp =
     (case resp of
        Inl e \<Rightarrow> Some e
      | Inr reply \<Rightarrow>
          (case firstParse parse reply of
             None \<Rightarrow> Some (Error ''Failed to parse plan response'')
           | Some v \<Rightarrow> stepsCause v))"

text \<open>A sequence of \<open>retryWithFix\<close> calls on one iterator, in order.\<close>

fun retrySequence ::
  "'w runtime \<Rightarrow> ('l, 'w) Executor \<Rightarrow> Iterator \<Rightarrow> (PlanStep \<times> ToolExecutionResult) list
     \<Rightarrow> AgentContext \<Rightarrow> 'w sys \<Rightarrow> Iterator \<times> AgentContext \<times> 'w sys" where
  "retrySequence rt ex it [] c s = (it, c, s)"
| "retrySequence rt ex it ((step, failedResult) # calls) c s =
     (case retryWithFix rt ex it step failedResult c s of
        (result, it1, c1, s1) \<Rightarrow> retrySequence rt ex it1 calls c1 s1)"

text \<open>
  A sequence of \<open>executeStep\<close> calls of one executor on one context, in order,
  whatever each call returns or throws.
\<close>

fun executeSteps ::
  "('l, 'w) Executor \<Rightarrow> PlanStep list \<Rightarrow> AgentContext \<Rightarrow> 'w sys \<Rightarrow> AgentContext \<times> 'w sys" where
  "executeSteps ex [] c s = (c, s)"
| "executeSteps ex (step # rest) c s =
     (case executeStep ex step c s of (r, c1, s1) \<Rightarrow> executeSteps ex rest c1 s1)"

section \<open>Example runs\<close>

text \<open>
  A small concrete instance of the runtime and the tools, on which the theorems
  below are evaluated. The world is the number of completions requested so far.
\<close>

definition okResult :: "string list \<Rightarrow> ToolExecutionResult" where
  "okResult fs =
     \<lparr>success = True, output_of = ''done'', error_of = None,
      metadata = Some \<lparr>meta_filesModified = Some fs, meta_command = None, meta_exitCode = None,
                       meta_stdout = None, meta_stderr = None, meta_duration = None\<rparr>\<rparr>"

text \<open>A failure result shaped as the \<open>catch\<close> of \<open>CommandTool.execute\<close> builds it.\<close>

definition failedCommand :: "string \<Rightarrow> ToolExecutionResult" where
  "failedCommand cmd =
     \<lparr>success = False, output_of = ''tests failed'', error_of = Some (''Command failed: '' @ cmd),
      metadata = Some \<lparr>meta_filesModified = None, meta_command = Some cmd, meta_exitCode = Some 1,
                       meta_stdout = Some [], meta_stderr = Some ''tests failed'',
                       meta_duration = Some 5\<rparr>\<rparr>"

definition textOf :: "jsv \<Rightarrow> string" where
  "textOf v = (case v of Str s \<Rightarrow> s | _ \<Rightarrow> [])"

text \<open>
  Three tools with the names of the repository's: the file tool reports the path
  it was given twice, the command tool fails, and the git tool throws.
\<close>

definition demoFileTool :: "nat BaseTool" where
  "demoFileTool =
     \<lparr>name = ''file'',
      execute = (\<lambda>p w. (Inr (okResult [textOf (propOf p ''path''), textOf (propOf p ''path'')]), w))\<rparr>"

definition demoCommandTool :: "nat BaseTool" where
  "demoCommandTool =
     \<lparr>name = ''command'',
      execute = (\<lambda>p w. (Inr (failedCommand (textOf (propOf p ''command''))), w))\<rparr>"

definition demoGitTool :: "nat BaseTool" where
  "demoGitTool =
     \<lparr>name = ''git'',
      execute = (\<lambda>p w. (Inl (TypeError ''Cannot destructure property action of params''), w))\<rparr>"

definition demoTools :: "nat BaseTool list" where
  "demoTools = [demoFileTool, demoCommandTool, demoGitTool]"

definition jsonPlanA :: string where
  \<open>jsonPlanA = ''{"reasoning":"add the file","steps":[{"description":"Write LICENSE","tool":"file","params":{"action":"write","path":"LICENSE","content":"MIT"}}]}''\<close>

definition jsonPlanB :: string where
  \<open>jsonPlanB = ''{"reasoning":"use another name","steps":[{"description":"Write COPYING","tool":"file","params":{"action":"write","path":"COPYING","content":"GPL"}}]}''\<close>

definition jsonPlanC :: string where
  \<open>jsonPlanC = ''{"reasoning":"check first","steps":[{"description":"Run the tests","tool":"command","params":{"command":"npm test"}}]}''\<close>

definition jsonPlanD :: string where
  \<open>jsonPlanD = ''{"reasoning":"write, test, document","steps":[{"description":"Write LICENSE","tool":"file","params":{"action":"write","path":"LICENSE"}},{"description":"Run the tests","tool":"command","params":{"command":"npm test"}},{"description":"Write README","tool":"file","params":{"action":"write","path":"README.md"}}]}''\<close>

definition jsonNote :: string where
  \<open>jsonNote = ''{"description":"Append a note","tool":"file","params":{"action":"patch","path":"NOTES.md"}}''\<close>

definition jsonNotes :: "nat \<Rightarrow> string" where
  \<open>jsonNotes n = ''{"steps":['' @ join '','' (replicate n jsonNote) @ '']}''\<close>

definition jsonNoSchema :: string where
  \<open>jsonNoSchema = ''{"steps":[{}]}''\<close>

definition jsonNullEntry :: string where
  \<open>jsonNullEntry = ''{"steps":[{"description":"Write LICENSE","tool":"file"},null]}''\<close>

definition jsonFix :: string where
  \<open>jsonFix = ''{"reasoning":"run it again","modifiedParams":{"command":"npm test --silent"}}''\<close>

definition fileStep :: "string \<Rightarrow> string \<Rightarrow> (string \<times> jsv) list \<Rightarrow> jsv" where
  "fileStep d t ps = Obj [(''description'', Str d), (''tool'', Str t), (''params'', Obj ps)]"

text \<open>\<open>JSON.parse\<close> on the texts of the example; every other text is rejected.\<close>

definition demoParse :: "string \<Rightarrow> jsv option" where
  "demoParse reply =
     (if reply = jsonPlanA then
        Some (Obj [(''reasoning'', Str ''add the file''),
                   (''steps'', Arr [fileStep ''Write LICENSE'' ''file''
                                      [(''action'', Str ''write''), (''path'', Str ''LICENSE''),
                                       (''content'', Str ''MIT'')]])])
      else if reply = jsonPlanB then
        Some (Obj [(''reasoning'', Str ''use another name''),
                   (''steps'', Arr [fileStep ''Write COPYING'' ''file''
                                      [(''action'', Str ''write''), (''path'', Str ''COPYING''),
                                       (''content'', Str ''GPL'')]])])
      else if reply = jsonPlanC then
        Some (Obj [(''reasoning'', Str ''check first''),
                   (''steps'', Arr [fileStep ''Run the tests'' ''command''
                                      [(''command'', Str ''npm test'')]])])
      else if reply = jsonPlanD then
        Some (Obj [(''reasoning'', Str ''write, test, document''),
                   (''steps'', Arr [fileStep ''Write LICENSE'' ''file''
                                      [(''action'', Str ''write''), (''path'', Str ''LICENSE'')],
                                    fileStep ''Run the tests'' ''command''
                                      [(''command'', Str ''npm test'')],
                                    fileStep ''Write README'' ''file''
                                      [(''action'', Str ''write''), (''path'', Str ''README.md'')]])])
      else if reply = jsonNotes 11 then
        Some (Obj [(''steps'', Arr (replicate 11
                     (fileStep ''Append a note'' ''file''
                        [(''action'', Str ''patch''), (''path'', Str ''NOTES.md'')])))])
      else if reply = jsonNoSchema then Some (Obj [(''steps'', Arr [Obj []])])
      else if reply = jsonNullEntry then
        Some (Obj [(''steps'', Arr [Obj [(''description'', Str ''Write LICENSE''),
                                         (''tool'', Str ''file'')], Null])])
      else if reply = jsonFix then
        Some (Obj [(''reasoning'', Str ''run it again''),
                   (''modifiedParams'', Obj [(''command'', Str ''npm test --silent'')])])
      else None)"

text \<open>
  The completion client of the example: for the goal \<open>add a LICENSE file\<close> it
  answers the first request with plan A inside a code fence and every later one with
  plan B; it is unreachable for the goal \<open>offline\<close>, answers the goals named below
  with the JSON texts above, and anything else with prose. Every fix request gets
  the same fix.
\<close>

definition demoCompletion :: "CompletionRequest \<Rightarrow> nat \<Rightarrow> js_error + string" where
  "demoCompletion req w =
     (case req of
        PlanRequest g wd \<Rightarrow>
          if g = ''add a LICENSE file''
          then Inr (if w = 0 then ''```json '' @ jsonPlanA @ '' ```'' else jsonPlanB)
          else if g = ''run the tests'' then Inr jsonPlanC
          else if g = ''write, test, document'' then Inr jsonPlanD
          else if g = ''eleven notes'' then Inr (jsonNotes 11)
          else if g = ''offline'' then Inl (LLMError ''connection refused'')
          else if g = ''no schema'' then Inr jsonNoSchema
          else if g = ''null entry'' then Inr jsonNullEntry
          else Inr ''I cannot help with that.''
      | FixRequest d t p e out \<Rightarrow> Inr jsonFix)"

definition demoRuntime :: "nat runtime" where
  "demoRuntime =
     \<lparr>generateCompletion = (\<lambda>req w. (demoCompletion req w, Suc w)),
      JSON_parse = demoParse,
      uuidv4 = (\<lambda>w. (''0f8fad5b-d9cb-469f-a165-70867728950e'', w)),
      cwd = ''/repo''\<rparr>"

text \<open>An executor built with both arguments, \<open>new Executor(llm, tools)\<close>.\<close>

definition demoExecutor ::
  "(CompletionRequest \<Rightarrow> nat \<Rightarrow> (js_error + string) \<times> nat, nat) Executor" where
  "demoExecutor = newExecutor (generateCompletion demoRuntime) (Some demoTools)"

definition demoStep :: "string \<Rightarrow> string \<Rightarrow> jsv \<Rightarrow> PlanStep" where
  "demoStep sid t p =
     \<lparr>stepId = sid, description = Str (''use '' @ t), tool = Str t, params = p,
      dependencies = Arr [], status = pending\<rparr>"

definition demoContext :: AgentContext where
  "demoContext = createContext ''/repo'' ''add a LICENSE file'' None"

definition demoStart :: "nat sys" where
  "demoStart = \<lparr>world = 0, trace = []\<rparr>"

definition demoConfig :: "bool \<Rightarrow> int option \<Rightarrow> bool \<Rightarrow> AgentConfig" where
  "demoConfig auto ceiling preview =
     \<lparr>taskId = ''task-1'', model = None, autonomous = Some auto, maxIterations = ceiling,
      cfg_workingDirectory = None, previewMode = Some preview\<rparr>"

text \<open>An agent as its constructor builds it.\<close>

definition demoAgent :: "bool \<Rightarrow> int option \<Rightarrow> bool \<Rightarrow> nat Agent" where
  "demoAgent auto ceiling preview = newAgent defaultConfig demoTools (demoConfig auto ceiling preview)"

definition demoCalls :: "(PlanStep \<times> ToolExecutionResult) list" where
  "demoCalls =
     [(demoStep ''step-1'' ''command'' Null, failedCommand ''npm test''),
      (demoStep ''step-0'' ''file'' Null, failedCommand ''npm test''),
      (demoStep ''step-1'' ''command'' Null, failedCommand ''npm test''),
      (demoStep ''step-1'' ''command'' Null, failedCommand ''npm test'')]"

text \<open>A task as \<open>POST /codegen\<close> stores it, its preview run, and the apply request.\<close>

definition demoTask :: Task where
  "demoTask =
     \<lparr>task_status = ''pending'', task_prompt = ''add a LICENSE file'', task_model = None,
      task_workingDirectory = None, task_options = None,
      task_progress = \<lparr>prog_currentStep = 0, prog_totalSteps = 0,
                       prog_currentAction = ''Initializing...''\<rparr>,
      task_result = None, task_error = None\<rparr>"

definition demoPreview :: "(string \<rightharpoonup> Task) \<times> nat sys" where
  "demoPreview =
     executeAgentInBackground demoRuntime defaultConfig demoTools [''task-1'' \<mapsto> demoTask]
       ''task-1'' ''add a LICENSE file'' None None None demoStart"

definition demoApply :: "nat \<times> (string \<rightharpoonup> Task) \<times> nat run option" where
  "demoApply =
     applyRoute demoRuntime defaultConfig demoTools (fst demoPreview) ''task-1'' (snd demoPreview)"


section \<open>Basic facts\<close>

lemmas demo_defs =
  demoTools_def demoFileTool_def demoCommandTool_def demoGitTool_def demoStep_def
  demoContext_def demoStart_def okResult_def failedCommand_def demoExecutor_def
  newExecutor_def textOf_def

lemma filesModified_addLog [simp]: "filesModified (addLog c l m) = filesModified c"
  by (simp add: addLog_def)

lemma commandsRun_addLog [simp]: "commandsRun (addLog c l m) = commandsRun c"
  by (simp add: addLog_def)

lemma trace_emit [simp]: "trace (emit ev s) = trace s @ [ev]"
  by (simp add: emit_def)

lemma world_emit [simp]: "world (emit ev s) = world s"
  by (simp add: emit_def)

lemma retries_Nil [simp]: "retries sid [] = 0"
  by (simp add: retries_def)

lemma toolRuns_Nil [simp]: "toolRuns sid [] = 0"
  by (simp add: toolRuns_def)

lemma retries_Cons [simp]:
  "retries sid (ev # tr) = (if isRetry ev \<and> stepOf ev = Some sid then 1 else 0) + retries sid tr"
  by (simp add: retries_def)

lemma toolRuns_Cons [simp]:
  "toolRuns sid (ev # tr)
     = (if isToolExecute ev \<and> stepOf ev = Some sid then 1 else 0) + toolRuns sid tr"
  by (simp add: toolRuns_def)

lemma retries_append [simp]: "retries sid (xs @ ys) = retries sid xs + retries sid ys"
  by (simp add: retries_def)

lemma toolRuns_append [simp]: "toolRuns sid (xs @ ys) = toolRuns sid xs + toolRuns sid ys"
  by (simp add: toolRuns_def)

lemma eventsSince_append: "trace s = trace s0 @ evs \<Longrightarrow> eventsSince s0 s = evs"
  by (simp add: eventsSince_def)

lemma eventsSince_self [simp]: "eventsSince s s = []"
  by (simp add: eventsSince_def)

subsection \<open>The executor\<close>

text \<open>
  A call of \<open>executeStep\<close> adds to the trace its own entry and at most one tool run,
  both for the step it was given.
\<close>

lemma executeStep_trace:
  "executeStep ex step c s = (x, c', s') \<Longrightarrow>
     \<exists>evs. trace s' = trace s @ EvExecuteStep (stepId step) # evs
        \<and> (evs = [] \<or> (\<exists>n out. evs = [EvToolExecute (stepId step) n out]))"
  by (auto simp: executeStep_def findTool_def Let_def
           split: option.splits prod.splits sum.splits if_splits)

text \<open>
  C5, as the code has it. For an executor that holds a tool list and a step whose
  description and tool name convert to strings, \<open>executeStep\<close> resolves with a
  result: with the failure \<open>Tool not found: <tool>\<close> when no tool has the step's
  name, no tool being run and the world left as it was; and with the failure
  \<open>Tool execution failed: <message>\<close> when the tool's \<open>execute\<close> throws an error
  with that message.
\<close>

theorem executeStep_total:
  assumes "ex_tools ex = Some ts"
    and "to_string (description step) = Inr d"
    and "to_string (tool step) = Inr t"
  shows "\<exists>result c' s'.
      executeStep ex step c s = (Inr result, c', s')
      \<and> (findTool ex (tool step) = Inr None \<longrightarrow>
            result = \<lparr>success = False, output_of = [],
                       error_of = Some (''Tool not found: '' @ t), metadata = None\<rparr>
            \<and> world s' = world s \<and> trace s' = trace s @ [EvExecuteStep (stepId step)])
      \<and> (\<forall>found e w'. findTool ex (tool step) = Inr (Some found)
                     \<and> execute found (params step) (world s) = (Inl e, w') \<longrightarrow>
            result = \<lparr>success = False, output_of = [],
                       error_of = Some (''Tool execution failed: '' @ err_message e),
                       metadata = None\<rparr>)"
  using assms
  by (auto simp: executeStep_def findTool_def Let_def split: option.splits prod.splits sum.splits)

theorem executeStep_total_witness:
  "ex_tools demoExecutor = Some demoTools
   \<and> to_string (description (demoStep ''step-0'' ''search'' Null)) = Inr ''use search''
   \<and> to_string (tool (demoStep ''step-0'' ''search'' Null)) = Inr ''search''
   \<and> findTool demoExecutor (tool (demoStep ''step-0'' ''search'' Null)) = Inr None
   \<and> fst (executeStep demoExecutor (demoStep ''step-0'' ''search'' Null) demoContext demoStart)
       = Inr \<lparr>success = False, output_of = [], error_of = Some ''Tool not found: search'',
              metadata = None\<rparr>
   \<and> to_string (description (demoStep ''step-1'' ''git'' Undefined)) = Inr ''use git''
   \<and> to_string (tool (demoStep ''step-1'' ''git'' Undefined)) = Inr ''git''
   \<and> findTool demoExecutor (tool (demoStep ''step-1'' ''git'' Undefined)) = Inr (Some demoGitTool)
   \<and> fst (execute demoGitTool (params (demoStep ''step-1'' ''git'' Undefined)) (world demoStart))
       = Inl (TypeError ''Cannot destructure property action of params'')
   \<and> fst (executeStep demoExecutor (demoStep ''step-1'' ''git'' Undefined) demoContext demoStart)
       = Inr \<lparr>success = False, output_of = [],
              error_of = Some ''Tool execution failed: Cannot destructure property action of params'',
              metadata = None\<rparr>"
proof -
  have ts: "ex_tools demoExecutor = Some demoTools"
    by (simp add: demoExecutor_def newExecutor_def)
  have d0: "to_string (description (demoStep ''step-0'' ''search'' Null)) = Inr ''use search''"
    and t0: "to_string (tool (demoStep ''step-0'' ''search'' Null)) = Inr ''search''"
    and d1: "to_string (description (demoStep ''step-1'' ''git'' Undefined)) = Inr ''use git''"
    and t1: "to_string (tool (demoStep ''step-1'' ''git'' Undefined)) = Inr ''git''"
    by (simp_all add: demoStep_def)
  have nf: "findTool demoExecutor (tool (demoStep ''step-0'' ''search'' Null)) = Inr None"
    by (simp add: findTool_def demo_defs)
  have fd: "findTool demoExecutor (tool (demoStep ''step-1'' ''git'' Undefined)) = Inr (Some demoGitTool)"
    by (simp add: findTool_def demo_defs)
  have th: "execute demoGitTool (params (demoStep ''step-1'' ''git'' Undefined)) (world demoStart)
              = (Inl (TypeError ''Cannot destructure property action of params''), 0)"
    by (simp add: demo_defs)
  from executeStep_total [OF ts d0 t0, of demoContext demoStart] nf
  have a: "fst (executeStep demoExecutor (demoStep ''step-0'' ''search'' Null) demoContext demoStart)
             = Inr \<lparr>success = False, output_of = [], error_of = Some ''Tool not found: search'',
                    metadata = None\<rparr>"
    by auto
  from executeStep_total [OF ts d1 t1, of demoContext demoStart] fd th
  have b: "fst (executeStep demoExecutor (demoStep ''step-1'' ''git'' Undefined) demoContext demoStart)
             = Inr \<lparr>success = False, output_of = [],
                    error_of = Some ''Tool execution failed: Cannot destructure property action of params'',
                    metadata = None\<rparr>"
    by auto
  from ts d0 t0 d1 t1 nf fd th a b show ?thesis by simp
qed

text \<open>
  C5 as first stated fails at three inputs: a step whose description is the object
  \<open>{"toString": 1}\<close>; a step whose tool name is that object; and the executor an
  \<open>Agent\<close> builds, whose tool list is \<open>undefined\<close>. Each time \<open>executeStep\<close>
  throws a \<open>TypeError\<close> instead of returning a result, before any tool is run.
\<close>

theorem executeStep_throws_counterexample:
  "executeStep demoExecutor
     ((demoStep ''step-0'' ''file'' Null)\<lparr>description := Obj [(''toString'', Num ''1'')]\<rparr>)
     demoContext demoStart
     = (Inl (TypeError ''Cannot convert object to primitive value''), demoContext,
        \<lparr>world = 0, trace = [EvExecuteStep ''step-0'']\<rparr>)
   \<and> fst (executeStep demoExecutor
            ((demoStep ''step-0'' ''file'' Null)\<lparr>tool := Obj [(''toString'', Num ''1'')]\<rparr>)
            demoContext demoStart)
     = Inl (TypeError ''Cannot convert object to primitive value'')
   \<and> fst (executeStep (executor (demoAgent False None False)) (demoStep ''step-0'' ''file'' Null)
            demoContext demoStart)
     = Inl (TypeError ''Cannot read properties of undefined (reading 'find')'')"
  by code_simp

text \<open>
  C10. When \<open>executeStep\<close> returns a result that is not a success (the tool failed,
  threw, or was not found), the context it leaves differs from the one it was given
  only by two log entries: \<open>filesModified\<close> and \<open>commandsRun\<close> are unchanged, whatever
  the result's metadata carries.
\<close>

theorem failed_result_not_tracked:
  "executeStep ex step c s = (Inr result, c', s') \<Longrightarrow> \<not> success result \<Longrightarrow>
     (\<exists>d m. to_string (description step) = Inr d
          \<and> c' = c\<lparr>logs := logs c
                    @ [\<lparr>level = info, message = ''Executing: '' @ d\<rparr>,
                       \<lparr>level = error, message = m\<rparr>]\<rparr>)
     \<and> filesModified c' = filesModified c \<and> commandsRun c' = commandsRun c"
  by (auto simp: executeStep_def findTool_def Let_def addLog_def
           split: option.splits prod.splits sum.splits if_splits)

theorem failed_result_not_tracked_witness:
  "(\<exists>c' s'. executeStep demoExecutor
               (demoStep ''step-1'' ''command'' (Obj [(''command'', Str ''npm test'')]))
               (addFileModified demoContext ''LICENSE'') demoStart
             = (Inr (failedCommand ''npm test''), c', s')
        \<and> filesModified c' = [''LICENSE''] \<and> commandsRun c' = [])
   \<and> \<not> success (failedCommand ''npm test'')
   \<and> map_option meta_command (metadata (failedCommand ''npm test'')) = Some (Some ''npm test'')"
proof -
  obtain x c' s' where
    e: "executeStep demoExecutor
          (demoStep ''step-1'' ''command'' (Obj [(''command'', Str ''npm test'')]))
          (addFileModified demoContext ''LICENSE'') demoStart = (x, c', s')"
    by (metis prod_cases3)
  then have x: "x = Inr (failedCommand ''npm test'')"
    by (auto simp add: executeStep_def findTool_def demo_defs Let_def)
  have ns: "\<not> success (failedCommand ''npm test'')"
    by (simp add: failedCommand_def)
  from failed_result_not_tracked [OF e [unfolded x] ns]
  have "filesModified c' = [''LICENSE''] \<and> commandsRun c' = []"
    by (simp add: addFileModified_def demoContext_def createContext_def)
  with e x ns show ?thesis by (simp add: failedCommand_def)
qed

subsection \<open>The iterator\<close>

lemma getFixStrategy_trace:
  "getFixStrategy rt step fr c s = (fx, c', s') \<Longrightarrow> trace s' = trace s"
  by (auto simp: getFixStrategy_def Let_def split: prod.splits sum.splits if_splits)

text \<open>
  A call of \<open>retryWithFix\<close> increments the counter of its step and nothing else in
  the iterator, and it adds to the trace its own entry and at most one executor call
  with at most one tool run, all for that step.
\<close>

lemma retryWithFix_shape:
  assumes "retryWithFix rt ex it step fr c s = (res, it', c', s')"
  shows "it' = it\<lparr>retryCount := (retryCount it)(stepId step \<mapsto> countOf it (stepId step) + 1)\<rparr>
     \<and> (\<exists>evs. trace s' = trace s @ EvRetryWithFix (stepId step) # evs
           \<and> (evs = [] \<or> evs = [EvExecuteStep (stepId step)]
               \<or> (\<exists>n out. evs = [EvExecuteStep (stepId step), EvToolExecute (stepId step) n out])))"
proof -
  obtain fs c2 s2 where
    g: "getFixStrategy rt step fr
          (addLog c info
             (''Attempting to fix failed step (attempt ''
                @ string_of_int (countOf it (stepId step) + 1) @ ''/''
                @ string_of_int (maxRetries it) @ '')''))
          (emit (EvRetryWithFix (stepId step)) s) = (fs, c2, s2)"
    by (metis prod_cases3)
  have t2: "trace s2 = trace s @ [EvRetryWithFix (stepId step)]"
    using getFixStrategy_trace [OF g] by simp
  show ?thesis
  proof (cases "\<exists>fx rs d. fs = Inr fx \<and> truthy fx \<and> to_string (propOf fx ''reasoning'') = Inr rs
                           \<and> to_string (description step) = Inr d")
    case False
    with assms g t2 show ?thesis
      by (auto simp add: retryWithFix_def Let_def split: sum.splits if_splits)
  next
    case True
    then obtain fx rs d where fs: "fs = Inr fx" and tr: "truthy fx"
      and rs: "to_string (propOf fx ''reasoning'') = Inr rs"
      and d: "to_string (description step) = Inr d"
      by blast
    let ?ms = "step\<lparr>params := (if truthy (propOf fx ''modifiedParams'')
                                then propOf fx ''modifiedParams'' else params step),
                     description := Str (d @ '' (retry with fix)'')\<rparr>"
    let ?c3 = "addLog c2 info (''Fix strategy: '' @ rs)"
    obtain r c4 s4 where e: "executeStep ex ?ms ?c3 s2 = (r, c4, s4)"
      by (metis prod_cases3)
    from executeStep_trace [OF e] obtain evs where
      t4: "trace s4 = trace s2 @ EvExecuteStep (stepId step) # evs"
      and evs: "evs = [] \<or> (\<exists>n out. evs = [EvToolExecute (stepId step) n out])"
      by auto
    from assms g fs tr rs d e
    have "s' = s4"
      and "it' = it\<lparr>retryCount := (retryCount it)(stepId step \<mapsto> countOf it (stepId step) + 1)\<rparr>"
      by (simp_all add: retryWithFix_def Let_def split: sum.splits)
    with t2 t4 evs show ?thesis by auto
  qed
qed

lemma countOf_update:
  "countOf (it\<lparr>retryCount := (retryCount it)(a \<mapsto> countOf it a + 1)\<rparr>) sid
     = countOf it sid + (if sid = a then 1 else 0)"
  by (simp add: countOf_def)

lemma retryWithFix_count:
  assumes "retryWithFix rt ex it step fr c s = (res, it', c', s')"
  shows "countOf it' sid = countOf it sid + (if sid = stepId step then 1 else 0)
     \<and> maxRetries it' = maxRetries it
     \<and> retries sid (trace s') = retries sid (trace s) + (if sid = stepId step then 1 else 0)"
  using retryWithFix_shape [OF assms] by (auto simp: countOf_update)

lemma retrySequence_count:
  "retrySequence rt ex it calls c s = (it', c', s') \<Longrightarrow>
     countOf it' sid = countOf it sid + int (count_list (map (stepId \<circ> fst) calls) sid)
     \<and> maxRetries it' = maxRetries it
     \<and> retries sid (trace s') = retries sid (trace s) + count_list (map (stepId \<circ> fst) calls) sid"
proof (induction calls arbitrary: it c s)
  case Nil
  then show ?case by simp
next
  case (Cons a calls)
  obtain step fr where a: "a = (step, fr)" by (cases a)
  obtain res it1 c1 s1 where r: "retryWithFix rt ex it step fr c s = (res, it1, c1, s1)"
    by (metis prod_cases4)
  from Cons.prems a r have "retrySequence rt ex it1 calls c1 s1 = (it', c', s')" by simp
  from Cons.IH [OF this] retryWithFix_count [OF r, of sid] a show ?case by auto
qed

text \<open>
  C4. After any sequence of \<open>retryWithFix\<close> calls on a new iterator, the number of
  calls recorded for a step id is the number of calls made with that id, and
  \<open>canRetry\<close> of the id holds exactly when that number is below \<open>maxRetries\<close>, which
  is 3 unless the constructor was given another value.
\<close>

theorem canRetry_budget:
  "retrySequence rt ex (newIterator m) calls c \<lparr>world = w, trace = []\<rparr> = (it, c', s') \<Longrightarrow>
     retries sid (trace s') = count_list (map (stepId \<circ> fst) calls) sid
     \<and> maxRetries it = (case m of None \<Rightarrow> DEFAULT_MAX_RETRIES | Some k \<Rightarrow> k)
     \<and> canRetry it sid = (int (retries sid (trace s')) < maxRetries it)"
  using retrySequence_count
          [of rt ex "newIterator m" calls c "\<lparr>world = w, trace = []\<rparr>" it c' s' sid]
  by (auto simp: canRetry_def newIterator_def countOf_def DEFAULT_MAX_RETRIES_def
           split: option.splits)

theorem canRetry_budget_witness:
  "(case retrySequence demoRuntime demoExecutor (newIterator None) demoCalls demoContext
           \<lparr>world = 0, trace = []\<rparr> of
      (it, c', s') \<Rightarrow>
        retries ''step-1'' (trace s') = 3 \<and> \<not> canRetry it ''step-1''
        \<and> retries ''step-0'' (trace s') = 1 \<and> canRetry it ''step-0'')"
proof -
  obtain it c' s' where
    e: "retrySequence demoRuntime demoExecutor (newIterator None) demoCalls demoContext
          \<lparr>world = 0, trace = []\<rparr> = (it, c', s')"
    by (metis prod_cases3)
  have c1: "count_list (map (stepId \<circ> fst) demoCalls) ''step-1'' = 3"
    and c0: "count_list (map (stepId \<circ> fst) demoCalls) ''step-0'' = 1"
    by (simp_all add: demoCalls_def demoStep_def)
  from canRetry_budget [OF e, of "''step-1''"] canRetry_budget [OF e, of "''step-0''"] c1 c0 e
  show ?thesis by (simp add: DEFAULT_MAX_RETRIES_def)
qed

subsection \<open>Tracking the modified files\<close>

lemma filesModified_foldl_add:
  "filesModified (foldl addFileModified c fs)
     = foldl (\<lambda>acc x. if x \<in> set acc then acc else acc @ [x]) (filesModified c) fs"
  by (induction fs arbitrary: c) (simp_all add: addFileModified_def)

lemma distinct_foldl_first:
  "distinct acc \<Longrightarrow> distinct (foldl (\<lambda>acc x. if x \<in> set acc then acc else acc @ [x]) acc xs)"
  by (induction xs arbitrary: acc) simp_all

lemma foldl_first_distinct:
  "distinct (acc @ xs) \<Longrightarrow> foldl (\<lambda>acc x. if x \<in> set acc then acc else acc @ [x]) acc xs = acc @ xs"
  by (induction xs arbitrary: acc) auto

text \<open>The first occurrences of a list that starts with a duplicate-free part.\<close>

lemma firstOccurrences_prefix:
  "distinct acc \<Longrightarrow>
     firstOccurrences (acc @ xs) = foldl (\<lambda>acc x. if x \<in> set acc then acc else acc @ [x]) acc xs"
  using foldl_first_distinct [of "[]" acc] by (simp add: firstOccurrences_def)

lemma filesModified_trackSideEffects:
  "filesModified (trackSideEffects c r)
     = foldl (\<lambda>acc x. if x \<in> set acc then acc else acc @ [x]) (filesModified c)
         (case metadata r of None \<Rightarrow> []
          | Some m \<Rightarrow> (case meta_filesModified m of None \<Rightarrow> [] | Some fs \<Rightarrow> fs))"
  by (simp add: trackSideEffects_def Let_def addCommandRun_def filesModified_foldl_add
           split: option.splits)

text \<open>
  What one call of \<open>executeStep\<close> does to \<open>filesModified\<close>: the paths reported by
  the events it added go through the membership test of \<open>addFileModified\<close>, in order.
\<close>

lemma executeStep_files:
  "executeStep ex step c s = (x, c', s') \<Longrightarrow>
     filesModified c'
       = foldl (\<lambda>acc x. if x \<in> set acc then acc else acc @ [x]) (filesModified c)
           (concat (map reportedFiles (eventsSince s s')))"
  by (auto simp: executeStep_def findTool_def Let_def eventsSince_def
                 filesModified_trackSideEffects
           split: option.splits prod.splits sum.splits if_splits)

lemma executeSteps_trace:
  "executeSteps ex sts c s = (c', s') \<Longrightarrow> \<exists>evs. trace s' = trace s @ evs"
proof (induction sts arbitrary: c s)
  case Nil
  then show ?case by simp
next
  case (Cons step sts)
  obtain x c1 s1 where e: "executeStep ex step c s = (x, c1, s1)"
    by (metis prod_cases3)
  with Cons.prems have "executeSteps ex sts c1 s1 = (c', s')" by simp
  from Cons.IH [OF this] executeStep_trace [OF e] show ?case by auto
qed

lemma executeSteps_files:
  "executeSteps ex sts c s = (c', s') \<Longrightarrow>
     filesModified c'
       = foldl (\<lambda>acc x. if x \<in> set acc then acc else acc @ [x]) (filesModified c)
           (concat (map reportedFiles (eventsSince s s')))"
proof (induction sts arbitrary: c s)
  case Nil
  then show ?case by simp
next
  case (Cons step sts)
  obtain x c1 s1 where e: "executeStep ex step c s = (x, c1, s1)"
    by (metis prod_cases3)
  with Cons.prems have rest: "executeSteps ex sts c1 s1 = (c', s')" by simp
  from executeStep_trace [OF e] obtain evs1 where t1: "trace s1 = trace s @ evs1" by auto
  from executeSteps_trace [OF rest] obtain evs2 where t2: "trace s' = trace s1 @ evs2" by auto
  have a: "eventsSince s s1 = evs1" and b: "eventsSince s1 s' = evs2"
    and ab: "eventsSince s s' = evs1 @ evs2"
    using t1 t2 by (simp_all add: eventsSince_def)
  from Cons.IH [OF rest] executeStep_files [OF e] a b ab show ?case by simp
qed

text \<open>
  C8. Whatever steps an executor runs on a context, one after the other, a
  \<open>filesModified\<close> without duplicates stays without duplicates (the list of a new
  context is empty), and it holds its former paths followed by the paths the
  successful results reported, each at its first occurrence.
\<close>

theorem filesModified_no_duplicates:
  assumes "executeSteps ex sts c s = (c', s')" and "distinct (filesModified c)"
  shows "distinct (filesModified c')
     \<and> filesModified c'
         = firstOccurrences (filesModified c @ concat (map reportedFiles (eventsSince s s')))"
  using executeSteps_files [OF assms(1)] assms(2)
  by (simp add: firstOccurrences_prefix distinct_foldl_first)

theorem filesModified_no_duplicates_witness:
  "distinct (filesModified demoContext)
   \<and> (case executeSteps demoExecutor
            [demoStep ''step-0'' ''file'' (Obj [(''path'', Str ''LICENSE'')]),
             demoStep ''step-1'' ''file'' (Obj [(''path'', Str ''README.md'')]),
             demoStep ''step-2'' ''file'' (Obj [(''path'', Str ''LICENSE'')])]
            demoContext demoStart of
        (c', s') \<Rightarrow>
          concat (map reportedFiles (eventsSince demoStart s'))
            = [''LICENSE'', ''LICENSE'', ''README.md'', ''README.md'', ''LICENSE'', ''LICENSE'']
          \<and> filesModified c' = [''LICENSE'', ''README.md''] \<and> distinct (filesModified c'))"
proof -
  let ?sts = "[demoStep ''step-0'' ''file'' (Obj [(''path'', Str ''LICENSE'')]),
               demoStep ''step-1'' ''file'' (Obj [(''path'', Str ''README.md'')]),
               demoStep ''step-2'' ''file'' (Obj [(''path'', Str ''LICENSE'')])]"
  obtain c' s' where e: "executeSteps demoExecutor ?sts demoContext demoStart = (c', s')"
    by (metis prod.exhaust)
  have d: "distinct (filesModified demoContext)"
    by (simp add: demoContext_def createContext_def)
  have ev: "concat (map reportedFiles
                     (eventsSince demoStart (snd (executeSteps demoExecutor ?sts demoContext demoStart))))
              = [''LICENSE'', ''LICENSE'', ''README.md'', ''README.md'', ''LICENSE'', ''LICENSE'']"
    by code_simp
  have fo: "firstOccurrences (filesModified demoContext
              @ [''LICENSE'', ''LICENSE'', ''README.md'', ''README.md'', ''LICENSE'', ''LICENSE''])
              = [''LICENSE'', ''README.md'']"
    by code_simp
  from filesModified_no_duplicates [OF e d] ev fo e d show ?thesis by simp
qed

subsection \<open>Step ids\<close>

lemma digit_char_inj: "a < 10 \<Longrightarrow> b < 10 \<Longrightarrow> digit_char a = digit_char b \<Longrightarrow> a = b"
proof -
  assume a: "a < 10" and b: "b < 10" and e: "digit_char a = digit_char b"
  have d: "distinct ''0123456789''" by simp
  have "a < length ''0123456789''" "b < length ''0123456789''" using a b by simp_all
  with d e show "a = b" unfolding digit_char_def by (simp only: nth_eq_iff_index_eq)
qed

lemma digit_char_not_dash: "d < 10 \<Longrightarrow> digit_char d \<noteq> CHR ''-''"
proof -
  assume "d < 10"
  then have "d < length ''0123456789''" by simp
  then have "''0123456789'' ! d \<in> set ''0123456789''" by (rule nth_mem)
  then show ?thesis unfolding digit_char_def by auto
qed

lemma string_of_nat_nonempty: "string_of_nat n \<noteq> []"
  by (subst string_of_nat.simps) simp

lemma string_of_nat_no_dash: "CHR ''-'' \<notin> set (string_of_nat n)"
proof (induction n rule: string_of_nat.induct)
  case (1 n)
  show ?case
  proof (cases "n < 10")
    case True
    then show ?thesis using digit_char_not_dash [of n] by (subst string_of_nat.simps) auto
  next
    case False
    with 1 digit_char_not_dash [of "n mod 10"] show ?thesis
      by (subst string_of_nat.simps) auto
  qed
qed

lemma string_of_nat_inj: "string_of_nat a = string_of_nat b \<Longrightarrow> a = b"
proof (induction a arbitrary: b rule: string_of_nat.induct)
  case (1 a)
  show ?case
  proof (cases "a < 10")
    case a: True
    show ?thesis
    proof (cases "b < 10")
      case True
      with a "1.prems" have "digit_char a = digit_char b"
        by (simp add: string_of_nat.simps)
      with a True show ?thesis by (rule digit_char_inj)
    next
      case False
      with a "1.prems" have "[digit_char a] = string_of_nat (b div 10) @ [digit_char (b mod 10)]"
        by (simp add: string_of_nat.simps [of a] string_of_nat.simps [of b])
      then have "string_of_nat (b div 10) = []" by simp
      with string_of_nat_nonempty show ?thesis by blast
    qed
  next
    case a: False
    show ?thesis
    proof (cases "b < 10")
      case True
      with a "1.prems" have "string_of_nat (a div 10) @ [digit_char (a mod 10)] = [digit_char b]"
        by (simp add: string_of_nat.simps [of a] string_of_nat.simps [of b])
      then have "string_of_nat (a div 10) = []" by simp
      with string_of_nat_nonempty show ?thesis by blast
    next
      case False
      with a "1.prems"
      have "string_of_nat (a div 10) @ [digit_char (a mod 10)]
              = string_of_nat (b div 10) @ [digit_char (b mod 10)]"
        by (simp add: string_of_nat.simps [of a] string_of_nat.simps [of b])
      then have e: "string_of_nat (a div 10) = string_of_nat (b div 10)"
        and d: "digit_char (a mod 10) = digit_char (b mod 10)"
        by simp_all
      from "1.IH" [OF a e] have q: "a div 10 = b div 10" .
      from d have r: "a mod 10 = b mod 10" by (intro digit_char_inj) simp_all
      from q r show ?thesis by (metis div_mult_mod_eq)
    qed
  qed
qed

lemma stepId_prefix_inj:
  assumes "''step-'' @ string_of_nat a @ ''-'' @ u = ''step-'' @ string_of_nat b @ ''-'' @ v"
  shows "a = b"
proof -
  from assms have e: "string_of_nat a @ CHR ''-'' # u = string_of_nat b @ CHR ''-'' # v" by simp
  have "takeWhile (\<lambda>c. c \<noteq> CHR ''-'') (string_of_nat a @ CHR ''-'' # u) = string_of_nat a"
    using string_of_nat_no_dash [of a] by (intro takeWhile_tail [THEN trans] ) (auto simp: takeWhile_eq_all_conv)
  moreover have "takeWhile (\<lambda>c. c \<noteq> CHR ''-'') (string_of_nat b @ CHR ''-'' # v) = string_of_nat b"
    using string_of_nat_no_dash [of b] by (intro takeWhile_tail [THEN trans] ) (auto simp: takeWhile_eq_all_conv)
  ultimately have "string_of_nat a = string_of_nat b" using e by simp
  then show ?thesis by (rule string_of_nat_inj)
qed

text \<open>The steps \<open>mapSteps\<close> builds carry the index in their id and are pending.\<close>

lemma mapSteps_ids:
  "mapSteps uuid i xs w = (Inr sts, w') \<Longrightarrow>
     length sts = length xs
     \<and> (\<forall>j < length xs. status (sts ! j) = pending
            \<and> (\<exists>u. stepId (sts ! j) = ''step-'' @ string_of_nat (i + j) @ ''-'' @ u))"
proof (induction xs arbitrary: i w sts w')
  case Nil
  then show ?case by simp
next
  case (Cons x xs)
  obtain sid w1 where g: "generateStepId uuid i w = (sid, w1)" by (cases "generateStepId uuid i w")
  then obtain u where sid: "sid = ''step-'' @ string_of_nat i @ ''-'' @ u"
    by (auto simp: generateStepId_def Let_def split: prod.splits)
  from Cons.prems g obtain st where st: "planStepOf sid x = Inr st"
    by (auto simp: Let_def split: sum.splits prod.splits)
  with Cons.prems g obtain sts1 w2 where
    rec: "mapSteps uuid (Suc i) xs w1 = (Inr sts1, w2)" and sts: "sts = st # sts1"
    by (auto simp: Let_def split: sum.splits prod.splits)
  from st have sst: "stepId st = sid" and pst: "status st = pending"
    by (auto simp: planStepOf_def split: sum.splits)
  from Cons.IH [OF rec] have ih: "length sts1 = length xs"
    "\<forall>j < length xs. status (sts1 ! j) = pending
        \<and> (\<exists>u. stepId (sts1 ! j) = ''step-'' @ string_of_nat (Suc i + j) @ ''-'' @ u)"
    by simp_all
  show ?case
  proof (intro conjI allI impI)
    show "length sts = length (x # xs)" using sts ih(1) by simp
  next
    fix j assume j: "j < length (x # xs)"
    show "status (sts ! j) = pending"
    proof (cases j)
      case 0
      with sts pst show ?thesis by simp
    next
      case (Suc k)
      with j ih(2) sts show ?thesis by auto
    qed
  next
    fix j assume j: "j < length (x # xs)"
    show "\<exists>u. stepId (sts ! j) = ''step-'' @ string_of_nat (i + j) @ ''-'' @ u"
    proof (cases j)
      case 0
      with sts sst sid show ?thesis by simp
    next
      case (Suc k)
      with j ih(2) sts show ?thesis by auto
    qed
  qed
qed

lemma mapSteps_distinct:
  assumes "mapSteps uuid i xs w = (Inr sts, w')"
  shows "distinct (map stepId sts)"
proof -
  from mapSteps_ids [OF assms] have len: "length sts = length xs"
    and ids: "\<forall>j < length xs. \<exists>u. stepId (sts ! j) = ''step-'' @ string_of_nat (i + j) @ ''-'' @ u"
    by simp_all
  show ?thesis
  proof (unfold distinct_conv_nth, intro allI impI)
    fix a b
    assume a: "a < length (map stepId sts)" and b: "b < length (map stepId sts)" and ne: "a \<noteq> b"
    from a b len ids obtain u v where
      "stepId (sts ! a) = ''step-'' @ string_of_nat (i + a) @ ''-'' @ u"
      "stepId (sts ! b) = ''step-'' @ string_of_nat (i + b) @ ''-'' @ v"
      by (metis length_map)
    with stepId_prefix_inj [of "i + a" u "i + b" v] ne
    have "stepId (sts ! a) \<noteq> stepId (sts ! b)" by auto
    with a b show "map stepId sts ! a \<noteq> map stepId sts ! b" by simp
  qed
qed

lemma mapSteps_pending:
  assumes "mapSteps uuid i xs w = (Inr sts, w')" and "j < length sts"
  shows "status (sts ! j) = pending"
  using mapSteps_ids [OF assms(1)] assms(2) by simp

lemma buildPlan_steps:
  "buildPlan uuid planData w = (Inr plan, w') \<Longrightarrow>
     distinct (map stepId (steps plan)) \<and> (\<forall>j < length (steps plan). status (steps plan ! j) = pending)"
  by (auto simp: buildPlan_def split: sum.splits jsv.splits prod.splits if_splits
           dest: mapSteps_distinct mapSteps_pending)

text \<open>
  What \<open>createPlan\<close> leaves: one trace entry, no modified file and no command; the
  steps of its plan have distinct ids and are pending.
\<close>

lemma createPlan_facts:
  assumes "createPlan rt g c s = (p, c', s')"
  shows "trace s' = trace s @ [EvCreatePlan]"
    and "filesModified c' = filesModified c"
    and "commandsRun c' = commandsRun c"
    and "\<forall>plan. p = Inr plan \<longrightarrow> distinct (map stepId (steps plan))
                    \<and> (\<forall>j < length (steps plan). status (steps plan ! j) = pending)"
  using assms
  by (auto simp: createPlan_def Let_def split: sum.splits prod.splits dest: buildPlan_steps)

subsection \<open>The executor an agent builds\<close>

lemma collect_Inl: "collect ys = Inl e \<Longrightarrow> Inl e \<in> set ys"
  by (induction ys rule: collect.induct) (auto split: sum.splits)

text \<open>The only error of the conversion to a string.\<close>

lemma to_string_error:
  "to_string v = Inl e \<Longrightarrow> e = TypeError ''Cannot convert object to primitive value''"
proof (induction v arbitrary: e rule: to_string.induct)
  case (6 xs)
  from "6.prems" have
    "collect (map (\<lambda>x. if x = Undefined \<or> x = Null then Inr [] else to_string x) xs) = Inl e"
    by (simp split: sum.splits)
  from collect_Inl [OF this] obtain x where x: "x \<in> set xs"
    and nn: "\<not> (x = Undefined \<or> x = Null)" and ts: "to_string x = Inl e"
    by (auto split: if_splits)
  from "6.IH" [OF x nn ts] show ?case .
qed (simp_all split: if_splits)

text \<open>
  An executor without a tool list rejects every call: with the error of the
  conversion of the description, or with the error of the read of \<open>this.tools.find\<close>.
  It runs no tool and leaves \<open>filesModified\<close> and \<open>commandsRun\<close> as they were.
\<close>

lemma executeStep_unwired:
  assumes "ex_tools ex = None" and "executeStep ex step c s = (x, c', s')"
  shows "(\<exists>m. x = Inl (TypeError m))
     \<and> trace s' = trace s @ [EvExecuteStep (stepId step)] \<and> world s' = world s
     \<and> filesModified c' = filesModified c \<and> commandsRun c' = commandsRun c"
  using assms
  by (auto simp: executeStep_def findTool_def Let_def split: sum.splits dest: to_string_error)

text \<open>With such an executor, a pass of the loop body ends in that error.\<close>

lemma loopBody_unwired:
  assumes un: "ex_tools ex = None" and lb: "loopBody rt ex auto ceiling i r = (x, r')"
  shows "(\<exists>m. x = Some (TypeError m))
     \<and> run_completed r' = run_completed r \<and> run_failed r' = run_failed r
     \<and> run_iterator r' = run_iterator r
     \<and> (\<exists>evs. trace (run_sys r') = trace (run_sys r) @ EvIterate i # evs
           \<and> (evs = [] \<or> evs = [EvExecuteStep (stepId (run_steps r ! i))]))
     \<and> (run_steps r' = run_steps r
          \<or> run_steps r' = (run_steps r)[i := (run_steps r ! i)\<lparr>status := in_progress\<rparr>])
     \<and> filesModified (run_context r') = filesModified (run_context r)
     \<and> commandsRun (run_context r') = commandsRun (run_context r)"
proof (cases "to_string (description (run_steps r ! i))")
  case (Inl e)
  with lb to_string_error [OF Inl] show ?thesis
    by (auto simp add: loopBody_def Let_def)
next
  case (Inr d)
  let ?step = "(run_steps r ! i)\<lparr>status := in_progress\<rparr>"
  let ?c1 = "addLog (run_context r) info
               (''Executing step '' @ string_of_nat (i + 1) @ ''/''
                  @ string_of_nat (length (run_steps r)) @ '': '' @ d)"
  obtain r1 c2 s2 where e: "executeStep ex ?step ?c1 (emit (EvIterate i) (run_sys r)) = (r1, c2, s2)"
    by (metis prod_cases3)
  from executeStep_unwired [OF un e] obtain m where
    r1: "r1 = Inl (TypeError m)"
    and t2: "trace s2 = trace (run_sys r) @ [EvIterate i, EvExecuteStep (stepId (run_steps r ! i))]"
    and f2: "filesModified c2 = filesModified (run_context r)"
    and k2: "commandsRun c2 = commandsRun (run_context r)"
    by auto
  from lb Inr e r1 have "x = Some (TypeError m)"
    and "r' = r\<lparr>run_steps := (run_steps r)[i := ?step], run_context := c2, run_sys := s2\<rparr>"
    by (simp_all add: loopBody_def Let_def)
  with t2 f2 k2 show ?thesis by simp
qed

lemma agentLoop_unwired:
  assumes "ex_tools ex = None" and "run_steps r \<noteq> []"
  shows "agentLoop rt ex auto ceiling 0 r = loopBody rt ex auto ceiling 0 r"
proof -
  obtain x r' where lb: "loopBody rt ex auto ceiling 0 r = (x, r')"
    by (metis prod.exhaust)
  from loopBody_unwired [OF assms(1) lb] obtain m where "x = Some (TypeError m)" by auto
  with lb assms(2) show ?thesis
    by (subst agentLoop.simps) simp
qed

text \<open>
  A run of \<open>Agent.execute\<close> on an agent as the constructor builds it. Planning
  apart, it adds at most two events, the entry of the loop at index 0 and the call
  of the executor for the first step; it completes no step and marks none failed;
  and when the plan has a step and is to be executed, the run ends in a
  \<open>TypeError\<close>.
\<close>

lemma unwired_run:
  assumes run: "Agent_execute rt appConfig (newAgent appConfig' ts cfg) g s0 = (res, r)"
  shows "run_completed r = [] \<and> run_failed r = []
     \<and> run_iterator r = newIterator (Some (app_maxRetries appConfig'))
     \<and> distinct (map stepId (run_steps r))
     \<and> (\<forall>j. 0 < j \<and> j < length (run_steps r) \<longrightarrow> status (run_steps r ! j) = pending)
     \<and> (run_steps r \<noteq> [] \<longrightarrow> status (run_steps r ! 0) \<noteq> completed
                                  \<and> status (run_steps r ! 0) \<noteq> failed)
     \<and> (\<exists>evs. trace (run_sys r) = trace s0 @ EvCreatePlan # evs
           \<and> (evs = [] \<or> evs = [EvIterate 0]
                \<or> evs = [EvIterate 0, EvExecuteStep (stepId (run_steps r ! 0))]))
     \<and> (previewMode cfg \<noteq> Some True \<and> run_steps r \<noteq> [] \<longrightarrow> (\<exists>m. res = Inl (TypeError m)))
     \<and> filesModified (run_context r) = [] \<and> commandsRun (run_context r) = []"
proof -
  let ?agent = "newAgent appConfig' ts cfg"
  let ?c2 = "addLog (addLog (createContext (cwd rt) g (cfg_workingDirectory (config ?agent)))
                 info ''Starting agent execution'') info ''Phase 1: Planning''"
  obtain p c3 s1 where cp: "createPlan rt g ?c2 s0 = (p, c3, s1)"
    by (metis prod_cases3)
  note cf = createPlan_facts [OF cp]
  have f3: "filesModified c3 = []" and k3: "commandsRun c3 = []"
    using cf(2,3) by (simp_all add: createContext_def)
  have un: "ex_tools (executor ?agent) = None"
    by (simp add: newAgent_def newExecutor_def)
  have it: "iterator ?agent = newIterator (Some (app_maxRetries appConfig'))"
    and cfg: "config ?agent = cfg"
    by (simp_all add: newAgent_def)
  show ?thesis
  proof (cases p)
    case (Inl e)
    with run cp cf(1) it show ?thesis
      by (auto simp add: Agent_execute_def Let_def f3 k3)
  next
    case (Inr plan)
    from cf(4) Inr have ids: "distinct (map stepId (steps plan))"
      and pend: "\<forall>j < length (steps plan). status (steps plan ! j) = pending"
      by simp_all
    show ?thesis
    proof (cases "previewMode cfg = Some True")
      case True
      with run cp Inr cf(1) it cfg ids pend show ?thesis
        by (auto simp add: Agent_execute_def Let_def f3 k3)
    next
      case False
      let ?r0 = "\<lparr>run_steps = steps plan, run_context = addLog c3 info ''Phase 2: Execution'',
                   run_iterator = iterator ?agent, run_completed = [], run_failed = [],
                   run_sys = s1\<rparr>"
      from run cp Inr False cfg
      have ep: "executionPhase rt ?agent (iterationCeiling cfg appConfig) plan c3 s1 = (res, r)"
        by (simp add: Agent_execute_def Let_def)
      show ?thesis
      proof (cases "steps plan = []")
        case True
        then have "agentLoop rt (executor ?agent) (isAutonomous cfg)
                     (iterationCeiling cfg appConfig) 0 ?r0 = (None, ?r0)"
          by (subst agentLoop.simps) simp
        with ep True cfg cf(1) it show ?thesis
          by (auto simp add: executionPhase_def Let_def f3 k3)
      next
        case ne: False
        obtain x r1 where lb: "loopBody rt (executor ?agent) (isAutonomous cfg)
                                 (iterationCeiling cfg appConfig) 0 ?r0 = (x, r1)"
          by (metis prod.exhaust)
        from ne have al: "agentLoop rt (executor ?agent) (isAutonomous cfg)
                            (iterationCeiling cfg appConfig) 0 ?r0 = (x, r1)"
          using agentLoop_unwired [OF un, of ?r0] lb by simp
        from loopBody_unwired [OF un lb] obtain m evs where
          x: "x = Some (TypeError m)"
          and l1: "run_completed r1 = []" "run_failed r1 = []"
          and i1: "run_iterator r1 = iterator ?agent"
          and t1: "trace (run_sys r1) = trace s1 @ EvIterate 0 # evs"
          and ev: "evs = [] \<or> evs = [EvExecuteStep (stepId (steps plan ! 0))]"
          and st: "run_steps r1 = steps plan
                     \<or> run_steps r1 = (steps plan)[0 := (steps plan ! 0)\<lparr>status := in_progress\<rparr>]"
          and f1: "filesModified (run_context r1) = []"
          and k1: "commandsRun (run_context r1) = []"
          by (auto simp: f3 k3)
        from ep al x cfg
        have res: "res = Inl (TypeError m)"
          and r: "r = r1\<lparr>run_context := addLog (run_context r1) error ''Agent execution failed''\<rparr>"
          by (simp_all add: executionPhase_def Let_def)
        from ne have len: "0 < length (steps plan)" by simp
        have sid: "map stepId (run_steps r1) = map stepId (steps plan)"
          using st len by (cases "steps plan") (auto simp: map_update)
        have sid0: "stepId (run_steps r1 ! 0) = stepId (steps plan ! 0)"
          using st len by auto
        have later: "status (run_steps r1 ! j) = pending" if "0 < j" "j < length (run_steps r1)" for j
          using st pend that by auto
        have first: "status (run_steps r1 ! 0) \<noteq> completed \<and> status (run_steps r1 ! 0) \<noteq> failed"
          using st pend len by auto
        have nonempty: "run_steps r1 \<noteq> []" using st ne by auto
        from res r l1 i1 it t1 ev cf(1) f1 k1 sid ids sid0 later first nonempty
        show ?thesis by auto
      qed
    qed
  qed
qed

subsection \<open>The loop body\<close>

lemma executeStep_error:
  "executeStep ex step c s = (Inl e, c', s') \<Longrightarrow> \<exists>m. e = TypeError m"
  by (auto simp: executeStep_def findTool_def Let_def
           split: sum.splits option.splits prod.splits if_splits dest: to_string_error)

text \<open>
  The test of the ceiling stands at the end of the loop body and compares the index:
  whatever the executor, its error is thrown in the pass for the index \<open>i\<close> only when
  the ceiling is at most \<open>i\<close>, after the step at that index was handed to the
  executor.
\<close>

lemma ceiling_test_position:
  assumes lb: "loopBody rt ex auto ceiling i r
                 = (Some (AgentError (''Maximum iterations ('' @ string_of_int ceiling
                                        @ '') exceeded'')), r')"
  shows "ceiling \<le> int i \<and> EvExecuteStep (stepId (run_steps r ! i)) \<in> set (trace (run_sys r'))"
proof (cases "to_string (description (run_steps r ! i))")
  case (Inl e)
  with lb to_string_error [OF Inl] show ?thesis
    by (auto simp add: loopBody_def Let_def)
next
  case (Inr d)
  let ?step = "(run_steps r ! i)\<lparr>status := in_progress\<rparr>"
  let ?c1 = "addLog (run_context r) info
               (''Executing step '' @ string_of_nat (i + 1) @ ''/''
                  @ string_of_nat (length (run_steps r)) @ '': '' @ d)"
  obtain r1 c2 s2 where e: "executeStep ex ?step ?c1 (emit (EvIterate i) (run_sys r)) = (r1, c2, s2)"
    by (metis prod_cases3)
  from executeStep_trace [OF e] have t2: "EvExecuteStep (stepId (run_steps r ! i)) \<in> set (trace s2)"
    by auto
  show ?thesis
  proof (cases r1)
    case (Inl e')
    with e executeStep_error [of ex ?step ?c1 "emit (EvIterate i) (run_sys r)" e' c2 s2] lb Inr
    show ?thesis by (auto simp add: loopBody_def Let_def)
  next
    case (Inr result1)
    obtain result it1 c3 s3 where
      rr: "(if \<not> success result1 \<and> canRetry (run_iterator r) (stepId ?step)
            then retryWithFix rt ex (run_iterator r) ?step result1
                   (addLog c2 warn ''Step failed, attempting recovery'') s2
            else (result1, run_iterator r, c2, s2)) = (result, it1, c3, s3)"
      by (metis prod_cases4)
    have t3: "EvExecuteStep (stepId (run_steps r ! i)) \<in> set (trace s3)"
    proof (cases "\<not> success result1 \<and> canRetry (run_iterator r) (stepId ?step)")
      case True
      with rr have "retryWithFix rt ex (run_iterator r) ?step result1
                      (addLog c2 warn ''Step failed, attempting recovery'') s2
                      = (result, it1, c3, s3)" by simp
      from retryWithFix_shape [OF this] t2 show ?thesis by auto
    next
      case False
      with rr t2 show ?thesis by auto
    qed
    from lb \<open>to_string (description (run_steps r ! i)) = Inr d\<close> e Inr rr
    have "ceiling \<le> int i \<and> run_sys r' = s3"
      by (auto simp add: loopBody_def Let_def split: if_splits)
    with t3 show ?thesis by simp
  qed
qed

text \<open>
  One pass of the loop body, whatever the executor: \<open>retryWithFix\<close> is entered at
  most once and a tool is run at most twice, the retry being guarded by an \<open>if\<close>;
  and when the pass marks its step failed, it throws in non-autonomous mode.
\<close>

lemma loopBody_pass:
  assumes lb: "loopBody rt ex auto ceiling i r = (x, r')"
  shows "\<exists>evs. trace (run_sys r') = trace (run_sys r) @ evs
      \<and> retries sid evs \<le> 1 \<and> toolRuns sid evs \<le> 2
      \<and> (run_failed r' = run_failed r
           \<or> run_failed r' = run_failed r @ [stepId (run_steps r ! i)]
              \<and> (\<not> auto \<longrightarrow> (\<exists>m. x = Some (AgentError (''Step failed: '' @ m)))))"
proof (cases "to_string (description (run_steps r ! i))")
  case (Inl e)
  with lb have "trace (run_sys r') = trace (run_sys r) @ [EvIterate i]"
    and "run_failed r' = run_failed r"
    by (auto simp add: loopBody_def Let_def)
  then show ?thesis by auto
next
  case (Inr d)
  let ?sid = "stepId (run_steps r ! i)"
  let ?step = "(run_steps r ! i)\<lparr>status := in_progress\<rparr>"
  let ?c1 = "addLog (run_context r) info
               (''Executing step '' @ string_of_nat (i + 1) @ ''/''
                  @ string_of_nat (length (run_steps r)) @ '': '' @ d)"
  obtain r1 c2 s2 where e: "executeStep ex ?step ?c1 (emit (EvIterate i) (run_sys r)) = (r1, c2, s2)"
    by (metis prod_cases3)
  from executeStep_trace [OF e] obtain evs1 where
    t2: "trace s2 = trace (run_sys r) @ EvIterate i # EvExecuteStep ?sid # evs1"
    and evs1: "evs1 = [] \<or> (\<exists>n out. evs1 = [EvToolExecute ?sid n out])"
    by auto
  show ?thesis
  proof (cases r1)
    case (Inl e')
    with lb Inr e have "run_sys r' = s2" and "run_failed r' = run_failed r"
      by (auto simp add: loopBody_def Let_def)
    with t2 evs1 show ?thesis by auto
  next
    case (Inr result1)
    obtain result it1 c3 s3 where
      rr: "(if \<not> success result1 \<and> canRetry (run_iterator r) (stepId ?step)
            then retryWithFix rt ex (run_iterator r) ?step result1
                   (addLog c2 warn ''Step failed, attempting recovery'') s2
            else (result1, run_iterator r, c2, s2)) = (result, it1, c3, s3)"
      by (metis prod_cases4)
    have "\<exists>evs2. trace s3 = trace s2 @ evs2
            \<and> (evs2 = [] \<or> evs2 = [EvRetryWithFix ?sid]
                 \<or> evs2 = [EvRetryWithFix ?sid, EvExecuteStep ?sid]
                 \<or> (\<exists>n out. evs2 = [EvRetryWithFix ?sid, EvExecuteStep ?sid,
                                      EvToolExecute ?sid n out]))"
    proof (cases "\<not> success result1 \<and> canRetry (run_iterator r) (stepId ?step)")
      case True
      with rr have "retryWithFix rt ex (run_iterator r) ?step result1
                      (addLog c2 warn ''Step failed, attempting recovery'') s2
                      = (result, it1, c3, s3)" by simp
      from retryWithFix_shape [OF this] show ?thesis by auto
    next
      case False
      with rr show ?thesis by auto
    qed
    then obtain evs2 where
      t3: "trace s3 = trace s2 @ evs2"
      and evs2: "evs2 = [] \<or> evs2 = [EvRetryWithFix ?sid]
                   \<or> evs2 = [EvRetryWithFix ?sid, EvExecuteStep ?sid]
                   \<or> (\<exists>n out. evs2 = [EvRetryWithFix ?sid, EvExecuteStep ?sid,
                                        EvToolExecute ?sid n out])"
      by blast
    from lb \<open>to_string (description (run_steps r ! i)) = Inr d\<close> e Inr rr
    have sys: "run_sys r' = s3"
      and fl: "run_failed r' = run_failed r
                 \<or> run_failed r' = run_failed r @ [?sid]
                    \<and> (\<not> auto \<longrightarrow> (\<exists>m. x = Some (AgentError (''Step failed: '' @ m))))"
      by (auto simp add: loopBody_def Let_def split: if_splits)
    have "retries sid (EvIterate i # EvExecuteStep ?sid # evs1 @ evs2) \<le> 1"
      and "toolRuns sid (EvIterate i # EvExecuteStep ?sid # evs1 @ evs2) \<le> 2"
      using evs1 evs2 by auto
    with sys t2 t3 fl show ?thesis by auto
  qed
qed

subsection \<open>Runs of the agent\<close>

lemma eventsSince_Cons:
  "trace s = trace s0 @ ev # evs \<Longrightarrow> eventsSince s0 s = ev # evs"
  by (simp add: eventsSince_def)



text \<open>
  C3 fails on the code. In autonomous mode, too, a run on a plan with at least one
  step ends in a \<open>TypeError\<close> and returns no \<open>TaskExecution\<close>: the executor the
  constructor built has no tool list, and it rejects the first step. No step is
  entered in \<open>completedSteps\<close> or \<open>failedSteps\<close>, the steps after the first are never
  attempted, and no tool is run.
\<close>

theorem autonomous_run_rejects:
  assumes run: "Agent_execute rt appConfig (newAgent appConfig' ts cfg) g s0 = (res, r)"
    and auto: "isAutonomous cfg"
    and np: "previewMode cfg \<noteq> Some True"
    and ne: "run_steps r \<noteq> []"
  shows "(\<exists>m. res = Inl (TypeError m))
     \<and> length (run_completed r) + length (run_failed r) = 0
     \<and> (\<forall>j. 0 < j \<and> j < length (run_steps r) \<longrightarrow>
            EvIterate j \<notin> set (eventsSince s0 (run_sys r)) \<and> status (run_steps r ! j) = pending)
     \<and> (\<forall>sid. toolRuns sid (eventsSince s0 (run_sys r)) = 0
              \<and> retries sid (eventsSince s0 (run_sys r)) = 0)"
proof -
  from unwired_run [OF run] np ne obtain evs m where
    c: "run_completed r = []" "run_failed r = []"
    and pend: "\<forall>j. 0 < j \<and> j < length (run_steps r) \<longrightarrow> status (run_steps r ! j) = pending"
    and tr: "trace (run_sys r) = trace s0 @ EvCreatePlan # evs"
    and evs: "evs = [] \<or> evs = [EvIterate 0]
                \<or> evs = [EvIterate 0, EvExecuteStep (stepId (run_steps r ! 0))]"
    and res: "res = Inl (TypeError m)"
    by blast
  from eventsSince_Cons [OF tr] evs pend c res show ?thesis by auto
qed

theorem autonomous_run_rejects_witness:
  "(case Agent_execute demoRuntime defaultConfig (newAgent defaultConfig demoTools
            (demoConfig True None False)) ''write, test, document'' demoStart of
      (res, r) \<Rightarrow>
        isAutonomous (demoConfig True None False)
        \<and> previewMode (demoConfig True None False) \<noteq> Some True
        \<and> length (run_steps r) = 3
        \<and> res = Inl (TypeError ''Cannot read properties of undefined (reading 'find')'')
        \<and> length (run_completed r) + length (run_failed r) = 0
        \<and> EvIterate 1 \<notin> set (eventsSince demoStart (run_sys r))
        \<and> EvIterate 2 \<notin> set (eventsSince demoStart (run_sys r))
        \<and> toolRuns ''step-0-0f8fad5b'' (eventsSince demoStart (run_sys r)) = 0)"
proof -
  obtain res r where
    e: "Agent_execute demoRuntime defaultConfig (newAgent defaultConfig demoTools
          (demoConfig True None False)) ''write, test, document'' demoStart = (res, r)"
    by (metis prod.exhaust)
  have au: "isAutonomous (demoConfig True None False)"
    and np: "previewMode (demoConfig True None False) \<noteq> Some True"
    by (simp_all add: isAutonomous_def demoConfig_def)
  have len: "length (run_steps (snd (Agent_execute demoRuntime defaultConfig
                (newAgent defaultConfig demoTools (demoConfig True None False))
                ''write, test, document'' demoStart))) = 3"
    by code_simp
  have rs: "fst (Agent_execute demoRuntime defaultConfig
                (newAgent defaultConfig demoTools (demoConfig True None False))
                ''write, test, document'' demoStart)
              = Inl (TypeError ''Cannot read properties of undefined (reading 'find')'')"
    by code_simp
  from len e have l3: "length (run_steps r) = 3" by simp
  then have ne: "run_steps r \<noteq> []" by auto
  from autonomous_run_rejects [OF e au np ne] rs e au np l3 show ?thesis by simp
qed

text \<open>
  C7 fails on the code. A run on a plan with more steps than the iteration ceiling
  does not end in an \<open>AgentError\<close>: it ends in the \<open>TypeError\<close> of the executor at
  the first step, and the test of the ceiling is not reached. No tool is run.
\<close>

theorem ceiling_never_reached:
  assumes run: "Agent_execute rt appConfig (newAgent appConfig' ts cfg) g s0 = (res, r)"
    and np: "previewMode cfg \<noteq> Some True"
    and c0: "0 \<le> iterationCeiling cfg appConfig"
    and over: "iterationCeiling cfg appConfig < int (length (run_steps r))"
  shows "(\<exists>m. res = Inl (TypeError m)) \<and> (\<forall>m. res \<noteq> Inl (AgentError m))
     \<and> (\<forall>sid. toolRuns sid (eventsSince s0 (run_sys r)) = 0)
     \<and> (\<forall>i. EvIterate (Suc i) \<notin> set (eventsSince s0 (run_sys r)))"
proof -
  from c0 over have ne: "run_steps r \<noteq> []" by auto
  from unwired_run [OF run] np ne obtain evs m where
    tr: "trace (run_sys r) = trace s0 @ EvCreatePlan # evs"
    and evs: "evs = [] \<or> evs = [EvIterate 0]
                \<or> evs = [EvIterate 0, EvExecuteStep (stepId (run_steps r ! 0))]"
    and res: "res = Inl (TypeError m)"
    by blast
  from eventsSince_Cons [OF tr] evs res show ?thesis by auto
qed

theorem ceiling_never_reached_witness:
  "(case Agent_execute demoRuntime defaultConfig (newAgent defaultConfig demoTools
            (demoConfig False None False)) ''eleven notes'' demoStart of
      (res, r) \<Rightarrow>
        previewMode (demoConfig False None False) \<noteq> Some True
        \<and> iterationCeiling (demoConfig False None False) defaultConfig = DEFAULT_MAX_ITERATIONS
        \<and> length (run_steps r) = 11
        \<and> res = Inl (TypeError ''Cannot read properties of undefined (reading 'find')'')
        \<and> (\<forall>m. res \<noteq> Inl (AgentError m))
        \<and> eventsSince demoStart (run_sys r)
            = [EvCreatePlan, EvIterate 0, EvExecuteStep ''step-0-0f8fad5b''])"
proof -
  obtain res r where
    e: "Agent_execute demoRuntime defaultConfig (newAgent defaultConfig demoTools
          (demoConfig False None False)) ''eleven notes'' demoStart = (res, r)"
    by (metis prod.exhaust)
  have np: "previewMode (demoConfig False None False) \<noteq> Some True"
    and ce: "iterationCeiling (demoConfig False None False) defaultConfig = 10"
    by (simp_all add: demoConfig_def iterationCeiling_def defaultConfig_def)
  have len: "length (run_steps (snd (Agent_execute demoRuntime defaultConfig
                (newAgent defaultConfig demoTools (demoConfig False None False))
                ''eleven notes'' demoStart))) = 11"
    by code_simp
  have rs: "fst (Agent_execute demoRuntime defaultConfig
                (newAgent defaultConfig demoTools (demoConfig False None False))
                ''eleven notes'' demoStart)
              = Inl (TypeError ''Cannot read properties of undefined (reading 'find')'')"
    by code_simp
  have tr: "eventsSince demoStart (run_sys (snd (Agent_execute demoRuntime defaultConfig
                (newAgent defaultConfig demoTools (demoConfig False None False))
                ''eleven notes'' demoStart)))
              = [EvCreatePlan, EvIterate 0, EvExecuteStep ''step-0-0f8fad5b'']"
    by code_simp
  from len e have l11: "length (run_steps r) = 11" by simp
  from ce have c0: "0 \<le> iterationCeiling (demoConfig False None False) defaultConfig" by simp
  from ce l11 have over: "iterationCeiling (demoConfig False None False) defaultConfig
                            < int (length (run_steps r))" by simp
  from ceiling_never_reached [OF e np c0 over] rs tr e np ce l11 show ?thesis
    by (simp add: DEFAULT_MAX_ITERATIONS_def)
qed



subsection \<open>Planning failures\<close>

lemma parsePlanResponse_firstParse:
  "parsePlanResponse parse reply
     = (case firstParse parse reply of None \<Rightarrow> Inl (Error ''Failed to parse plan response'')
        | Some v \<Rightarrow> Inr v)"
  by (simp add: parsePlanResponse_def firstParse_def split: option.splits)

text \<open>The \<open>map\<close> over the parsed steps throws at the first \<open>null\<close> entry.\<close>

lemma mapSteps_fails:
  "find nullish xs = Some x \<Longrightarrow>
     fst (mapSteps uuid i xs w) = Inl (cannotRead x ''description'')"
proof (induction xs arbitrary: i w)
  case Nil
  then show ?case by simp
next
  case (Cons y ys)
  obtain sid w1 where g: "generateStepId uuid i w = (sid, w1)" by (cases "generateStepId uuid i w")
  show ?case
  proof (cases "nullish y")
    case True
    with Cons.prems g show ?thesis by (simp add: planStepOf_def get_prop_def)
  next
    case False
    with Cons.prems have "find nullish ys = Some x" by simp
    from Cons.IH [OF this, of "Suc i" w1]
    have "fst (mapSteps uuid (Suc i) ys w1) = Inl (cannotRead x ''description'')" .
    with g False show ?thesis
      by (auto simp: planStepOf_def get_prop_def split: prod.splits sum.splits)
  qed
qed

lemma buildPlan_fails:
  assumes "stepsCause v = Some e"
  shows "fst (buildPlan uuid v w) = Inl e"
proof (cases "nullish v")
  case True
  with assms show ?thesis by (simp add: buildPlan_def get_prop_def stepsCause_def)
next
  case nn: False
  show ?thesis
  proof (cases "propOf v ''steps''")
    case (Arr xs)
    with assms nn obtain x where "find nullish xs = Some x" and "e = cannotRead x ''description''"
      by (auto simp: stepsCause_def)
    with mapSteps_fails [of xs x uuid 0 w] Arr nn show ?thesis
      by (auto simp: buildPlan_def get_prop_def split: prod.splits sum.splits)
  qed (use nn assms in \<open>auto simp: buildPlan_def get_prop_def stepsCause_def nullish_def\<close>)
qed

text \<open>
  When planning cannot succeed, \<open>createPlan\<close> throws an \<open>AgentError\<close> whose message
  is \<open>Planning failed: \<close> followed by the message of the error behind the failure.
\<close>

lemma createPlan_fails:
  assumes gen: "generateCompletion rt (PlanRequest g (workingDirectory c)) (world s) = (resp, w')"
    and cause: "planningCause (JSON_parse rt) resp = Some e"
  shows "\<exists>c' s'. createPlan rt g c s
                    = (Inl (AgentError (''Planning failed: '' @ err_message e)), c', s')"
proof (cases resp)
  case (Inl e')
  with gen cause show ?thesis
    by (simp add: createPlan_def Let_def addLog_def planningCause_def)
next
  case (Inr reply)
  show ?thesis
  proof (cases "firstParse (JSON_parse rt) reply")
    case None
    with gen Inr cause show ?thesis
      by (auto simp add: createPlan_def Let_def addLog_def parsePlanResponse_firstParse
                         planningCause_def)
  next
    case (Some v)
    with cause Inr have "stepsCause v = Some e" by (simp add: planningCause_def)
    from buildPlan_fails [OF this, of "uuidv4 rt" w']
    have "fst (buildPlan (uuidv4 rt) v w') = Inl e" .
    with gen Inr Some show ?thesis
      by (auto simp: createPlan_def Let_def addLog_def parsePlanResponse_firstParse
               split: prod.splits)
  qed
qed

text \<open>
  C6, as the code has it. When the completion call throws, or \<open>JSON.parse\<close> rejects
  both the fence-stripped text and the brace-matched extraction, or the value parsed
  has no \<open>steps\<close> array or a \<open>null\<close> entry in it, \<open>createPlan\<close> throws an
  \<open>AgentError\<close> whose message is \<open>Planning failed: \<close> followed by the message of
  the error behind the failure; \<open>Agent.execute\<close> rethrows that error, and the run
  consists of the call of the planner: neither the executor nor the iterator is
  called.
\<close>

theorem planning_failure_aborts:
  assumes gen: "generateCompletion rt (PlanRequest g wd) (world s0) = (resp, w')"
    and cause: "planningCause (JSON_parse rt) resp = Some e"
  shows "(\<forall>c. workingDirectory c = wd \<longrightarrow>
            fst (createPlan rt g c s0) = Inl (AgentError (''Planning failed: '' @ err_message e)))
     \<and> (\<forall>appConfig agent res r.
            workingDirectory (createContext (cwd rt) g (cfg_workingDirectory (config agent))) = wd
            \<and> Agent_execute rt appConfig agent g s0 = (res, r) \<longrightarrow>
            res = Inl (AgentError (''Planning failed: '' @ err_message e))
            \<and> eventsSince s0 (run_sys r) = [EvCreatePlan]
            \<and> \<not> executorCalled (eventsSince s0 (run_sys r)))"
proof -
  have first: "fst (createPlan rt g c s0) = Inl (AgentError (''Planning failed: '' @ err_message e))"
    if "workingDirectory c = wd" for c
    using createPlan_fails [of rt g c s0 resp w' e] gen cause that by auto
  have second: "res = Inl (AgentError (''Planning failed: '' @ err_message e))
            \<and> eventsSince s0 (run_sys r) = [EvCreatePlan]
            \<and> \<not> executorCalled (eventsSince s0 (run_sys r))"
    if a: "workingDirectory (createContext (cwd rt) g (cfg_workingDirectory (config agent))) = wd
            \<and> Agent_execute rt appConfig agent g s0 = (res, r)"
    for appConfig and agent :: "'a Agent" and res r
  proof -
    let ?c2 = "addLog (addLog (createContext (cwd rt) g (cfg_workingDirectory (config agent)))
                   info ''Starting agent execution'') info ''Phase 1: Planning''"
    from a have wd: "workingDirectory ?c2 = wd" by (simp add: addLog_def)
    from createPlan_fails [of rt g ?c2 s0 resp w' e] gen cause wd
    obtain c' s' where
      cp: "createPlan rt g ?c2 s0
             = (Inl (AgentError (''Planning failed: '' @ err_message e)), c', s')"
      by auto
    from createPlan_facts(1) [OF cp] have tr: "eventsSince s0 s' = [EvCreatePlan]"
      by (simp add: eventsSince_def)
    from a have "Agent_execute rt appConfig agent g s0 = (res, r)" by simp
    with cp tr show ?thesis
      by (auto simp add: Agent_execute_def Let_def executorCalled_def)
  qed
  from first second show ?thesis by blast
qed

theorem planning_failure_aborts_witness:
  "generateCompletion demoRuntime (PlanRequest ''offline'' ''/repo'') (world demoStart)
     = (Inl (LLMError ''connection refused''), 1)
   \<and> planningCause (JSON_parse demoRuntime) (Inl (LLMError ''connection refused''))
     = Some (LLMError ''connection refused'')
   \<and> generateCompletion demoRuntime (PlanRequest ''fix the bug'' ''/repo'') (world demoStart)
     = (Inr ''I cannot help with that.'', 1)
   \<and> planningCause (JSON_parse demoRuntime) (Inr ''I cannot help with that.'')
     = Some (Error ''Failed to parse plan response'')
   \<and> generateCompletion demoRuntime (PlanRequest ''null entry'' ''/repo'') (world demoStart)
     = (Inr jsonNullEntry, 1)
   \<and> planningCause (JSON_parse demoRuntime) (Inr jsonNullEntry)
     = Some (TypeError ''Cannot read properties of null (reading 'description')'')
   \<and> fst (Agent_execute demoRuntime defaultConfig (demoAgent False None False) ''offline'' demoStart)
     = Inl (AgentError ''Planning failed: connection refused'')
   \<and> fst (Agent_execute demoRuntime defaultConfig (demoAgent False None False) ''fix the bug'' demoStart)
     = Inl (AgentError ''Planning failed: Failed to parse plan response'')
   \<and> fst (Agent_execute demoRuntime defaultConfig (demoAgent False None False) ''null entry'' demoStart)
     = Inl (AgentError ''Planning failed: Cannot read properties of null (reading 'description')'')
   \<and> eventsSince demoStart
        (run_sys (snd (Agent_execute demoRuntime defaultConfig (demoAgent False None False)
                         ''null entry'' demoStart))) = [EvCreatePlan]"
proof -
  have g1: "generateCompletion demoRuntime (PlanRequest ''offline'' ''/repo'') (world demoStart)
              = (Inl (LLMError ''connection refused''), 1)"
    and g2: "generateCompletion demoRuntime (PlanRequest ''fix the bug'' ''/repo'') (world demoStart)
              = (Inr ''I cannot help with that.'', 1)"
    and g3: "generateCompletion demoRuntime (PlanRequest ''null entry'' ''/repo'') (world demoStart)
              = (Inr jsonNullEntry, 1)"
    by (simp_all add: demoRuntime_def demoCompletion_def demoStart_def)
  have b1: "planningCause (JSON_parse demoRuntime) (Inl (LLMError ''connection refused''))
              = Some (LLMError ''connection refused'')"
    by (simp add: planningCause_def)
  have b2: "planningCause (JSON_parse demoRuntime) (Inr ''I cannot help with that.'')
              = Some (Error ''Failed to parse plan response'')"
    by code_simp
  have b3: "planningCause (JSON_parse demoRuntime) (Inr jsonNullEntry)
              = Some (TypeError ''Cannot read properties of null (reading 'description')'')"
    by code_simp
  have wd: "workingDirectory (createContext (cwd demoRuntime) g
              (cfg_workingDirectory (config (demoAgent False None False)))) = ''/repo''" for g
    by (simp add: createContext_def demoRuntime_def demoAgent_def newAgent_def demoConfig_def)
  define r1 where "r1 = Agent_execute demoRuntime defaultConfig (demoAgent False None False) ''offline'' demoStart"
  define r2 where "r2 = Agent_execute demoRuntime defaultConfig (demoAgent False None False) ''fix the bug'' demoStart"
  define r3 where "r3 = Agent_execute demoRuntime defaultConfig (demoAgent False None False) ''null entry'' demoStart"
  have e1: "Agent_execute demoRuntime defaultConfig (demoAgent False None False) ''offline''
              demoStart = (fst r1, snd r1)"
    and e2: "Agent_execute demoRuntime defaultConfig (demoAgent False None False) ''fix the bug''
              demoStart = (fst r2, snd r2)"
    and e3: "Agent_execute demoRuntime defaultConfig (demoAgent False None False) ''null entry''
              demoStart = (fst r3, snd r3)"
    by (simp_all add: r1_def r2_def r3_def)
  from planning_failure_aborts [OF g1 b1] wd [of "''offline''"] e1
  have v1: "fst r1 = Inl (AgentError (''Planning failed: '' @ err_message (LLMError ''connection refused'')))"
    by blast
  from planning_failure_aborts [OF g2 b2] wd [of "''fix the bug''"] e2
  have v2: "fst r2 = Inl (AgentError (''Planning failed: ''
                            @ err_message (Error ''Failed to parse plan response'')))"
    by blast
  from planning_failure_aborts [OF g3 b3] wd [of "''null entry''"] e3
  have v3: "fst r3 = Inl (AgentError (''Planning failed: ''
               @ err_message (TypeError ''Cannot read properties of null (reading 'description')'')))
            \<and> eventsSince demoStart (run_sys (snd r3)) = [EvCreatePlan]"
    by blast
  from g1 b1 g2 b2 g3 b3 v1 v2 v3 show ?thesis by (simp add: r1_def r2_def r3_def)
qed

text \<open>
  C6 as first stated fails twice: the error thrown for an unparsable completion is
  an \<open>AgentError\<close> (no class \<open>PlanningError\<close> exists), and a completion that parses
  to a \<open>steps\<close> array of objects without the fields of a step yields a plan.
\<close>

theorem planning_error_counterexample:
  "fst (createPlan demoRuntime ''fix the bug'' demoContext demoStart)
     = Inl (AgentError ''Planning failed: Failed to parse plan response'')
   \<and> err_name (AgentError ''Planning failed: Failed to parse plan response'') \<noteq> ''PlanningError''
   \<and> fst (createPlan demoRuntime ''no schema'' demoContext demoStart)
     = Inr \<lparr>steps = [\<lparr>stepId = ''step-0-0f8fad5b'', description = Undefined, tool = Undefined,
                      params = Undefined, dependencies = Arr [], status = pending\<rparr>],
            reasoning = Undefined, estimatedSteps = 1\<rparr>"
  by code_simp

subsection \<open>Preview and apply\<close>

text \<open>
  C1 fails on the code, at a completion client that answers the second planning
  request differently. The preview stores plan A (write \<open>LICENSE\<close>) for approval.
  The apply request is accepted, and \<open>executeApprovedPlan\<close> runs \<open>Agent.execute\<close> on
  the prompt again: the planner is called a second time, and the loop is entered
  with the step of its plan B (write \<open>COPYING\<close>), which is the step handed to the
  executor. That call is rejected, as every call of the executor an agent builds,
  and the task ends \<open>failed\<close>; it still shows plan A.
\<close>

theorem apply_runs_a_new_plan:
  "fst demoApply = 200
   \<and> map_option (map (\<lambda>st. (description st, params st)) \<circ> steps)
        (Option.bind (Option.bind (fst demoPreview ''task-1'') task_result) res_plan)
       = Some [(Str ''Write LICENSE'',
                Obj [(''action'', Str ''write''), (''path'', Str ''LICENSE''), (''content'', Str ''MIT'')])]
   \<and> map_option (map (\<lambda>st. (description st, params st)) \<circ> run_steps) (snd (snd demoApply))
       = Some [(Str ''Write COPYING'',
                Obj [(''action'', Str ''write''), (''path'', Str ''COPYING''), (''content'', Str ''GPL'')])]
   \<and> map_option (trace \<circ> run_sys) (snd (snd demoApply))
       = Some [EvCreatePlan, EvCreatePlan, EvIterate 0, EvExecuteStep ''step-0-0f8fad5b'']
   \<and> map_option (map message \<circ> logs \<circ> run_context) (snd (snd demoApply))
       = Some [''Starting agent execution'', ''Phase 1: Planning'', ''Creating execution plan'',
               ''Plan created with 1 steps'', ''Phase 2: Execution'',
               ''Executing step 1/1: Write COPYING'', ''Executing: Write COPYING'',
               ''Agent execution failed'']
   \<and> map_option task_status (fst (snd demoApply) ''task-1'') = Some ''failed''
   \<and> Option.bind (fst (snd demoApply) ''task-1'') task_error
       = Some ''Cannot read properties of undefined (reading 'find')''
   \<and> map_option (map description \<circ> steps)
        (Option.bind (Option.bind (fst (snd demoApply) ''task-1'') task_result) res_plan)
       = Some [Str ''Write LICENSE'']"
  by code_simp

end
